theory Spec2Isabelle
  imports Complex_Main
begin

section \<open>Values\<close>

text \<open>
  A parsed JSON value, as \<^verbatim>\<open>JSON.parse\<close> produces it. The members of an object are kept
  as an association list in the order in which \<^verbatim>\<open>Object.entries\<close> enumerates them; a read
  takes the first pair with the key. Numbers are modelled as reals: the rounding, the
  infinities and the NaN of IEEE doubles are not modelled. A text is a list of code
  units, and the model has the code units below 256 (a \<open>char\<close> is the code unit of its
  number): a text with a code unit from U+0100 on is not a value of the model. A value that
  may be \<^verbatim>\<open>undefined\<close> is a \<open>json option\<close>, \<open>None\<close> being \<^verbatim>\<open>undefined\<close>.
\<close>

datatype json =
    JNull
  | JBool bool
  | JNum real
  | JStr string
  | JArr "json list"
  | JObj "(string \<times> json) list"

datatype error = TypeError | SyntaxError | SourceError

text \<open>Truthiness of a value (\<^verbatim>\<open>!x\<close>, \<^verbatim>\<open>x && y\<close>, \<^verbatim>\<open>x || y\<close>, \<^verbatim>\<open>if (x)\<close>).\<close>

fun truthy :: "json \<Rightarrow> bool" where
  "truthy JNull = False"
| "truthy (JBool b) = b"
| "truthy (JNum n) = (n \<noteq> 0)"
| "truthy (JStr s) = (s \<noteq> [])"
| "truthy (JArr xs) = True"
| "truthy (JObj kvs) = True"

fun truthyOpt :: "json option \<Rightarrow> bool" where
  "truthyOpt None = False"
| "truthyOpt (Some v) = truthy v"

text \<open>Decimal digits of a natural number, and the array index a property name denotes
  (a canonical numeric string: no sign, no leading zero).\<close>

definition digitChar :: "nat \<Rightarrow> char" where
  "digitChar n = (''0123456789'' ! n)"

fun showNat :: "nat \<Rightarrow> string" where
  "showNat n = (if n < 10 then [digitChar n] else showNat (n div 10) @ [digitChar (n mod 10)])"

declare showNat.simps [simp del]

fun findIndex :: "string \<Rightarrow> nat \<Rightarrow> nat \<Rightarrow> nat option" where
  "findIndex k i 0 = None"
| "findIndex k i (Suc n) = (if showNat i = k then Some i else findIndex k (Suc i) n)"

text \<open>
  Reading the property \<open>k\<close> of a value that is neither \<^verbatim>\<open>null\<close> nor \<^verbatim>\<open>undefined\<close>:
  the members of an object, the elements and the length of an array, the characters
  and the length of a string. Members inherited from the runtime's prototypes are outside
  the model (see \<open>inheritedNames\<close> and \<open>sequenceMethodNames\<close>); none of the names that
  the code reads is one.
\<close>

fun member :: "json \<Rightarrow> string \<Rightarrow> json option" where
  "member (JObj kvs) k = map_of kvs k"
| "member (JArr xs) k =
     (if k = ''length'' then Some (JNum (real (length xs)))
      else (case findIndex k 0 (length xs) of Some i \<Rightarrow> Some (xs ! i) | None \<Rightarrow> None))"
| "member (JStr s) k =
     (if k = ''length'' then Some (JNum (real (length s)))
      else (case findIndex k 0 (length s) of Some i \<Rightarrow> Some (JStr [s ! i]) | None \<Rightarrow> None))"
| "member v k = None"

text \<open>\<^verbatim>\<open>v[k]\<close> and \<^verbatim>\<open>v.k\<close>: a read on \<^verbatim>\<open>null\<close> or \<^verbatim>\<open>undefined\<close> raises a TypeError.\<close>

fun getProp :: "json option \<Rightarrow> string \<Rightarrow> error + json option" where
  "getProp None k = Inl TypeError"
| "getProp (Some JNull) k = Inl TypeError"
| "getProp (Some v) k = Inr (member v k)"

text \<open>Names that every object, number or boolean inherits from \<^verbatim>\<open>Object.prototype\<close>,
  \<^verbatim>\<open>Number.prototype\<close> and \<^verbatim>\<open>Boolean.prototype\<close>, and the further names that an array or a
  string inherits from \<^verbatim>\<open>Array.prototype\<close> and \<^verbatim>\<open>String.prototype\<close> (ECMAScript, with
  Annex B).\<close>

definition inheritedNames :: "string list" where
  "inheritedNames =
     [''constructor'', ''__proto__'', ''hasOwnProperty'', ''isPrototypeOf'',
      ''propertyIsEnumerable'', ''toLocaleString'', ''toString'', ''valueOf'',
      ''__defineGetter__'', ''__defineSetter__'', ''__lookupGetter__'', ''__lookupSetter__'',
      ''toExponential'', ''toFixed'', ''toPrecision'']"

definition sequenceMethodNames :: "string list" where
  "sequenceMethodNames =
     [''at'', ''concat'', ''copyWithin'', ''entries'', ''every'', ''fill'', ''filter'', ''find'',
      ''findIndex'', ''findLast'', ''findLastIndex'', ''flat'', ''flatMap'', ''forEach'',
      ''includes'', ''indexOf'', ''join'', ''keys'', ''lastIndexOf'', ''map'', ''pop'', ''push'',
      ''reduce'', ''reduceRight'', ''reverse'', ''shift'', ''slice'', ''some'', ''sort'',
      ''splice'', ''toReversed'', ''toSorted'', ''toSpliced'', ''unshift'', ''values'', ''with'',
      ''charAt'', ''charCodeAt'', ''codePointAt'', ''endsWith'', ''isWellFormed'',
      ''localeCompare'', ''match'', ''matchAll'', ''normalize'', ''padEnd'', ''padStart'',
      ''repeat'', ''replace'', ''replaceAll'', ''search'', ''split'', ''startsWith'',
      ''substring'', ''toLocaleLowerCase'', ''toLocaleUpperCase'', ''toLowerCase'',
      ''toUpperCase'', ''toWellFormed'', ''trim'', ''trimEnd'', ''trimStart'', ''substr'',
      ''anchor'', ''big'', ''blink'', ''bold'', ''fixed'', ''fontcolor'', ''fontsize'',
      ''italics'', ''link'', ''small'', ''strike'', ''sub'', ''sup'', ''trimLeft'', ''trimRight'']"

section \<open>Path resolver\<close>

text \<open>\<^verbatim>\<open>path.split('.')\<close>: never empty; the empty string splits into one empty segment.\<close>

fun splitDot :: "string \<Rightarrow> string list" where
  "splitDot [] = [[]]"
| "splitDot (c # cs) =
     (if c = CHR ''.'' then [] # splitDot cs
      else (case splitDot cs of [] \<Rightarrow> [[c]] | w # ws \<Rightarrow> (c # w) # ws))"

text \<open>The callback of the \<^verbatim>\<open>reduce\<close> in \<^verbatim>\<open>getNestedValue\<close>:
  \<^verbatim>\<open>current && current[key] !== undefined ? current[key] : undefined\<close>.\<close>

definition reduceStep :: "json option \<Rightarrow> string \<Rightarrow> error + json option" where
  "reduceStep current key =
     (if truthyOpt current then
        (case getProp current key of
           Inl e \<Rightarrow> Inl e
         | Inr r \<Rightarrow> if r \<noteq> None then getProp current key else Inr None)
      else Inr None)"

fun reduceE :: "('a \<Rightarrow> 'b \<Rightarrow> error + 'a) \<Rightarrow> 'a \<Rightarrow> 'b list \<Rightarrow> error + 'a" where
  "reduceE f acc [] = Inr acc"
| "reduceE f acc (x # xs) = (case f acc x of Inl e \<Rightarrow> Inl e | Inr acc' \<Rightarrow> reduceE f acc' xs)"

definition getNestedValue :: "json option \<Rightarrow> string \<Rightarrow> error + json option" where
  "getNestedValue obj path =
     (if path = [] \<or> \<not> truthyOpt obj then Inr None
      else reduceE reduceStep obj (splitDot path))"



section \<open>Schema registry\<close>

text \<open>
  One entry of \<^verbatim>\<open>COLUMN_SCHEMAS\<close>, with the fields the helper functions read. A field
  that an entry sets to \<^verbatim>\<open>null\<close> or does not set is \<open>None\<close>.
\<close>

record schema =
  column :: string
  columnIndex :: nat
  headerName :: string
  structurePattern :: string
  dataSource :: string
  primaryValuePath :: "string option"
  timeSeriesPath :: "string option"
  categoriesPath :: "string option"
  categoryValueType :: "string option"
  requiredFields :: "string list"
  arrayItemKeyField :: "string option"
  arrayItemValueField :: "string option"
  itemValueField :: "string option"

definition obligationsSchema :: schema where
  "obligationsSchema = \<lparr>
     column = ''D'', columnIndex = 3,
     headerName = ''Obligations'',
     structurePattern = ''PATTERN_A_SIMPLE_TOTALS'',
     dataSource = ''FAS'',
     primaryValuePath = Some ''total_obligated'',
     timeSeriesPath = Some ''fiscal_year_obligations'',
     categoriesPath = None,
     categoryValueType = None,
     requiredFields = [''source_file'', ''fiscal_year_obligations'', ''total_obligated'', ''processed_date''],
     arrayItemKeyField = None, arrayItemValueField = None,
     itemValueField = None \<rparr>"

definition smallBusinessSchema :: schema where
  "smallBusinessSchema = \<lparr>
     column = ''E'', columnIndex = 4,
     headerName = ''Small Business'',
     structurePattern = ''PATTERN_B_SUMMARY_WITH_OBJECT_MAP'',
     dataSource = ''FAS'',
     primaryValuePath = Some ''summary.total_all_obligations'',
     timeSeriesPath = None,
     categoriesPath = Some ''business_size_summaries'',
     categoryValueType = Some ''object_map'',
     requiredFields = [''source_file'', ''summary'', ''business_size_summaries'', ''processed_date''],
     arrayItemKeyField = None, arrayItemValueField = None,
     itemValueField = None \<rparr>"

definition sumTierSchema :: schema where
  "sumTierSchema = \<lparr>
     column = ''F'', columnIndex = 5,
     headerName = ''SUM Tier '',
     structurePattern = ''PATTERN_B_SUMMARY_WITH_OBJECT_MAP'',
     dataSource = ''FAS'',
     primaryValuePath = Some ''summary.total_all_obligations'',
     timeSeriesPath = None,
     categoriesPath = Some ''tier_summaries'',
     categoryValueType = Some ''object_map'',
     requiredFields = [''source_file'', ''summary'', ''tier_summaries'', ''processed_date''],
     arrayItemKeyField = None, arrayItemValueField = None,
     itemValueField = None \<rparr>"

definition sumTypeSchema :: schema where
  "sumTypeSchema = \<lparr>
     column = ''G'', columnIndex = 6,
     headerName = ''Sum Type'',
     structurePattern = ''PATTERN_B_SUMMARY_WITH_OBJECT_MAP'',
     dataSource = ''FAS'',
     primaryValuePath = Some ''summary.total_all_obligations'',
     timeSeriesPath = None,
     categoriesPath = Some ''sum_type_summaries'',
     categoryValueType = Some ''object_map'',
     requiredFields = [''source_file'', ''summary'', ''sum_type_summaries'', ''processed_date''],
     arrayItemKeyField = None, arrayItemValueField = None,
     itemValueField = None \<rparr>"

definition contractVehicleSchema :: schema where
  "contractVehicleSchema = \<lparr>
     column = ''H'', columnIndex = 7,
     headerName = ''Contract Vehicle'',
     structurePattern = ''PATTERN_B_SUMMARY_WITH_OBJECT_MAP'',
     dataSource = ''FAS'',
     primaryValuePath = Some ''summary.total_all_obligations'',
     timeSeriesPath = None,
     categoriesPath = Some ''top_contract_summaries'',
     categoryValueType = Some ''object_map'',
     requiredFields = [''source_file'', ''summary'', ''top_contract_summaries'', ''processed_date''],
     arrayItemKeyField = None, arrayItemValueField = None,
     itemValueField = None \<rparr>"

definition fundingDepartmentSchema :: schema where
  "fundingDepartmentSchema = \<lparr>
     column = ''I'', columnIndex = 8,
     headerName = ''Funding Department'',
     structurePattern = ''PATTERN_B_SUMMARY_WITH_OBJECT_MAP'',
     dataSource = ''FAS'',
     primaryValuePath = Some ''summary.total_all_departments'',
     timeSeriesPath = None,
     categoriesPath = Some ''top_10_department_summaries'',
     categoryValueType = Some ''object_map'',
     requiredFields = [''source_file'', ''summary'', ''top_10_department_summaries'', ''processed_date''],
     arrayItemKeyField = None, arrayItemValueField = None,
     itemValueField = None \<rparr>"

definition oneGovDiscountedProductsSchema :: schema where
  "oneGovDiscountedProductsSchema = \<lparr>
     column = ''J'', columnIndex = 9,
     headerName = ''OneGov Discounted Products'',
     structurePattern = ''PATTERN_B_SUMMARY_WITH_OBJECT_MAP'',
     dataSource = ''FAS'',
     primaryValuePath = Some ''summary.total_obligations_with_discounts'',
     timeSeriesPath = None,
     categoriesPath = Some ''discount_categories'',
     categoryValueType = Some ''object_map'',
     requiredFields = [''source_file'', ''discount_status'', ''summary'', ''discount_categories'', ''processed_date''],
     arrayItemKeyField = None, arrayItemValueField = None,
     itemValueField = None \<rparr>"

definition topRefPiidSchema :: schema where
  "topRefPiidSchema = \<lparr>
     column = ''K'', columnIndex = 10,
     headerName = ''Top Ref_PIID'',
     structurePattern = ''PATTERN_C_SUMMARY_WITH_ARRAY'',
     dataSource = ''FAS'',
     primaryValuePath = Some ''total_obligations'',
     timeSeriesPath = Some ''yearly_totals'',
     categoriesPath = Some ''top_10_reference_piids'',
     categoryValueType = Some ''array'',
     requiredFields = [''source_file'', ''total_obligations'', ''unique_ref_piids'', ''fiscal_years_covered'', ''yearly_totals'', ''top_10_reference_piids'', ''processed_date''],
     arrayItemKeyField = Some ''reference_piid'', arrayItemValueField = Some ''dollars_obligated'',
     itemValueField = None \<rparr>"

definition topPiidSchema :: schema where
  "topPiidSchema = \<lparr>
     column = ''L'', columnIndex = 11,
     headerName = ''Top PIID'',
     structurePattern = ''PATTERN_C_SUMMARY_WITH_ARRAY'',
     dataSource = ''FAS'',
     primaryValuePath = Some ''total_obligations'',
     timeSeriesPath = Some ''yearly_totals'',
     categoriesPath = Some ''top_10_piids'',
     categoryValueType = Some ''array'',
     requiredFields = [''source_file'', ''total_obligations'', ''unique_piids'', ''fiscal_years_covered'', ''yearly_totals'', ''top_10_piids'', ''processed_date''],
     arrayItemKeyField = Some ''piid'', arrayItemValueField = Some ''dollars_obligated'',
     itemValueField = None \<rparr>"

definition activeContractsSchema :: schema where
  "activeContractsSchema = \<lparr>
     column = ''M'', columnIndex = 12,
     headerName = ''Active Contracts'',
     structurePattern = ''PATTERN_D_NESTED_FISCAL_YEAR'',
     dataSource = ''FAS'',
     primaryValuePath = Some ''summary.total_obligations'',
     timeSeriesPath = None,
     categoriesPath = Some ''expiring_by_quarter'',
     categoryValueType = Some ''object_map'',
     requiredFields = [''source_file'', ''summary'', ''expiring_by_quarter'', ''processed_date''],
     arrayItemKeyField = None, arrayItemValueField = None,
     itemValueField = None \<rparr>"

definition expiringDiscountedProductsSchema :: schema where
  "expiringDiscountedProductsSchema = \<lparr>
     column = ''N'', columnIndex = 13,
     headerName = ''Expiring OneGov Discounted Products'',
     structurePattern = ''PATTERN_E_NESTED_ENTITY'',
     dataSource = ''FAS'',
     primaryValuePath = Some ''summary.grand_total_all_obligations'',
     timeSeriesPath = None,
     categoriesPath = Some ''discount_contracts_expiring_by_quarter'',
     categoryValueType = Some ''object_map'',
     requiredFields = [''source_file'', ''sheet_type'', ''grouped_by'', ''discount_report_status'', ''summary'', ''discount_contracts_expiring_by_quarter'', ''processed_date''],
     arrayItemKeyField = None, arrayItemValueField = None,
     itemValueField = None \<rparr>"

definition aiProductSchema :: schema where
  "aiProductSchema = \<lparr>
     column = ''O'', columnIndex = 14,
     headerName = ''AI Product'',
     structurePattern = ''PATTERN_D_NESTED_FISCAL_YEAR'',
     dataSource = ''FAS'',
     primaryValuePath = Some ''summary.grand_total_obligations'',
     timeSeriesPath = None,
     categoriesPath = Some ''fiscal_year_summaries'',
     categoryValueType = Some ''object_map'',
     requiredFields = [''source_file'', ''ai_product_status'', ''summary'', ''fiscal_year_summaries'', ''processed_date''],
     arrayItemKeyField = None, arrayItemValueField = None,
     itemValueField = None \<rparr>"

definition aiCategorySchema :: schema where
  "aiCategorySchema = \<lparr>
     column = ''P'', columnIndex = 15,
     headerName = ''AI Category'',
     structurePattern = ''PATTERN_D_NESTED_FISCAL_YEAR'',
     dataSource = ''FAS'',
     primaryValuePath = Some ''summary.grand_total_obligations'',
     timeSeriesPath = None,
     categoriesPath = Some ''fiscal_year_summaries'',
     categoryValueType = Some ''object_map'',
     requiredFields = [''source_file'', ''ai_category_status'', ''summary'', ''fiscal_year_summaries'', ''processed_date''],
     arrayItemKeyField = None, arrayItemValueField = None,
     itemValueField = None \<rparr>"

definition topBicProductsSchema :: schema where
  "topBicProductsSchema = \<lparr>
     column = ''Q'', columnIndex = 16,
     headerName = ''Top BIC Products'',
     structurePattern = ''PATTERN_C_SUMMARY_WITH_ARRAY'',
     dataSource = ''BIC'',
     primaryValuePath = Some ''summary.total_all_products'',
     timeSeriesPath = Some ''yearly_totals'',
     categoriesPath = Some ''top_25_products'',
     categoryValueType = Some ''array'',
     requiredFields = [''source_file'', ''summary'', ''yearly_totals'', ''top_25_products'', ''processed_date''],
     arrayItemKeyField = Some ''product_name'', arrayItemValueField = Some ''total_price'',
     itemValueField = None \<rparr>"

definition resellerSchema :: schema where
  "resellerSchema = \<lparr>
     column = ''R'', columnIndex = 17,
     headerName = ''Reseller '',
     structurePattern = ''PATTERN_B_SUMMARY_WITH_OBJECT_MAP'',
     dataSource = ''FAS'',
     primaryValuePath = Some ''summary.total_all_resellers'',
     timeSeriesPath = None,
     categoriesPath = Some ''top_15_reseller_summaries'',
     categoryValueType = Some ''object_map'',
     requiredFields = [''source_file'', ''summary'', ''top_15_reseller_summaries'', ''processed_date''],
     arrayItemKeyField = None, arrayItemValueField = None,
     itemValueField = None \<rparr>"

definition bicResellerSchema :: schema where
  "bicResellerSchema = \<lparr>
     column = ''S'', columnIndex = 18,
     headerName = ''BIC Reseller'',
     structurePattern = ''PATTERN_C_SUMMARY_WITH_ARRAY'',
     dataSource = ''BIC'',
     primaryValuePath = Some ''summary.total_all_resellers'',
     timeSeriesPath = Some ''yearly_totals'',
     categoriesPath = Some ''top_15_resellers'',
     categoryValueType = Some ''array'',
     requiredFields = [''source_file'', ''summary'', ''yearly_totals'', ''top_15_resellers'', ''processed_date''],
     arrayItemKeyField = Some ''vendor_name'', arrayItemValueField = Some ''total_sales'',
     itemValueField = None \<rparr>"

definition bicOemSchema :: schema where
  "bicOemSchema = \<lparr>
     column = ''T'', columnIndex = 19,
     headerName = ''BIC OEM'',
     structurePattern = ''PATTERN_C_SUMMARY_WITH_ARRAY'',
     dataSource = ''BIC'',
     primaryValuePath = Some ''summary.total_all_manufacturers'',
     timeSeriesPath = Some ''yearly_totals'',
     categoriesPath = Some ''top_15_manufacturers'',
     categoryValueType = Some ''array'',
     requiredFields = [''source_file'', ''summary'', ''yearly_totals'', ''top_15_manufacturers'', ''processed_date''],
     arrayItemKeyField = Some ''manufacturer_name'', arrayItemValueField = Some ''total_sales'',
     itemValueField = None \<rparr>"

definition fasOemSchema :: schema where
  "fasOemSchema = \<lparr>
     column = ''U'', columnIndex = 20,
     headerName = ''FAS OEM'',
     structurePattern = ''PATTERN_B_SUMMARY_WITH_OBJECT_MAP'',
     dataSource = ''FAS'',
     primaryValuePath = Some ''summary.total_all_oems'',
     timeSeriesPath = None,
     categoriesPath = Some ''top_10_oem_summaries'',
     categoryValueType = Some ''object_map'',
     requiredFields = [''source_file'', ''summary'', ''top_10_oem_summaries'', ''processed_date''],
     arrayItemKeyField = None, arrayItemValueField = None,
     itemValueField = Some ''total_obligations'' \<rparr>"

definition fundingAgencySchema :: schema where
  "fundingAgencySchema = \<lparr>
     column = ''V'', columnIndex = 21,
     headerName = ''Funding Agency'',
     structurePattern = ''PATTERN_B_SUMMARY_WITH_OBJECT_MAP'',
     dataSource = ''FAS'',
     primaryValuePath = Some ''summary.total_all_agencies'',
     timeSeriesPath = None,
     categoriesPath = Some ''top_10_agency_summaries'',
     categoryValueType = Some ''object_map'',
     requiredFields = [''source_file'', ''summary'', ''top_10_agency_summaries'', ''processed_date''],
     arrayItemKeyField = None, arrayItemValueField = None,
     itemValueField = None \<rparr>"

definition bicTopProductsPerAgencySchema :: schema where
  "bicTopProductsPerAgencySchema = \<lparr>
     column = ''W'', columnIndex = 22,
     headerName = ''BIC Top Products per Agency'',
     structurePattern = ''PATTERN_E_NESTED_ENTITY'',
     dataSource = ''BIC'',
     primaryValuePath = Some ''summary.grand_total'',
     timeSeriesPath = Some ''yearly_totals'',
     categoriesPath = Some ''top_10_agencies'',
     categoryValueType = Some ''object_map'',
     requiredFields = [''source_file'', ''summary'', ''yearly_totals'', ''top_10_agencies'', ''processed_date''],
     arrayItemKeyField = None, arrayItemValueField = None,
     itemValueField = None \<rparr>"

definition oneGovTierSchema :: schema where
  "oneGovTierSchema = \<lparr>
     column = ''X'', columnIndex = 23,
     headerName = ''OneGov Tier'',
     structurePattern = ''PATTERN_A_SIMPLE_TOTALS'',
     dataSource = ''CALCULATED'',
     primaryValuePath = Some ''total_obligated'',
     timeSeriesPath = Some ''fiscal_year_tiers'',
     categoriesPath = None,
     categoryValueType = None,
     requiredFields = [''mode_tier'', ''overall_tier'', ''total_obligated'', ''formatted_total'', ''average_obligations_per_year'', ''fiscal_year_tiers'', ''tier_counts'', ''tier_summary'', ''tier_definitions'', ''processed_date''],
     arrayItemKeyField = None, arrayItemValueField = None,
     itemValueField = None \<rparr>"

definition usaiProfileSchema :: schema where
  "usaiProfileSchema = \<lparr>
     column = ''AC'', columnIndex = 28,
     headerName = ''USAi Profile'',
     structurePattern = ''PATTERN_F_FLAT_PROFILE'',
     dataSource = ''USAI'',
     primaryValuePath = None,
     timeSeriesPath = None,
     categoriesPath = None,
     categoryValueType = None,
     requiredFields = [''oem_name''],
     arrayItemKeyField = None, arrayItemValueField = None,
     itemValueField = None \<rparr>"

text \<open>The registry, in the order of the source.\<close>

definition COLUMN_SCHEMAS :: "(string \<times> schema) list" where
  "COLUMN_SCHEMAS =
     [(''obligations'', obligationsSchema),
      (''smallBusiness'', smallBusinessSchema),
      (''sumTier'', sumTierSchema),
      (''sumType'', sumTypeSchema),
      (''contractVehicle'', contractVehicleSchema),
      (''fundingDepartment'', fundingDepartmentSchema),
      (''oneGovDiscountedProducts'', oneGovDiscountedProductsSchema),
      (''topRefPiid'', topRefPiidSchema),
      (''topPiid'', topPiidSchema),
      (''activeContracts'', activeContractsSchema),
      (''expiringDiscountedProducts'', expiringDiscountedProductsSchema),
      (''aiProduct'', aiProductSchema),
      (''aiCategory'', aiCategorySchema),
      (''topBicProducts'', topBicProductsSchema),
      (''reseller'', resellerSchema),
      (''bicReseller'', bicResellerSchema),
      (''bicOem'', bicOemSchema),
      (''fasOem'', fasOemSchema),
      (''fundingAgency'', fundingAgencySchema),
      (''bicTopProductsPerAgency'', bicTopProductsPerAgencySchema),
      (''oneGovTier'', oneGovTierSchema),
      (''usaiProfile'', usaiProfileSchema)]"

text \<open>
  \<^verbatim>\<open>COLUMN_INDEX_MAP\<close>, in the order in which \<^verbatim>\<open>Object.entries\<close> enumerates it: the
  integer keys in ascending order, then the column letters in the order of the source.
\<close>

definition COLUMN_INDEX_MAP :: "(string \<times> string) list" where
  "COLUMN_INDEX_MAP =
     [(''3'', ''obligations''), (''4'', ''smallBusiness''), (''5'', ''sumTier''),
      (''6'', ''sumType''), (''7'', ''contractVehicle''), (''8'', ''fundingDepartment''),
      (''9'', ''oneGovDiscountedProducts''), (''10'', ''topRefPiid''), (''11'', ''topPiid''),
      (''12'', ''activeContracts''), (''13'', ''expiringDiscountedProducts''), (''14'', ''aiProduct''),
      (''15'', ''aiCategory''), (''16'', ''topBicProducts''), (''17'', ''reseller''),
      (''18'', ''bicReseller''), (''19'', ''bicOem''), (''20'', ''fasOem''),
      (''21'', ''fundingAgency''), (''22'', ''bicTopProductsPerAgency''), (''23'', ''oneGovTier''),
      (''28'', ''usaiProfile''), (''D'', ''obligations''), (''E'', ''smallBusiness''),
      (''F'', ''sumTier''), (''G'', ''sumType''), (''H'', ''contractVehicle''),
      (''I'', ''fundingDepartment''), (''J'', ''oneGovDiscountedProducts''), (''K'', ''topRefPiid''),
      (''L'', ''topPiid''), (''M'', ''activeContracts''), (''N'', ''expiringDiscountedProducts''),
      (''O'', ''aiProduct''), (''P'', ''aiCategory''), (''Q'', ''topBicProducts''),
      (''R'', ''reseller''), (''S'', ''bicReseller''), (''T'', ''bicOem''),
      (''U'', ''fasOem''), (''V'', ''fundingAgency''), (''W'', ''bicTopProductsPerAgency''),
      (''X'', ''oneGovTier''), (''AC'', ''usaiProfile'')]"

section \<open>Built-ins of the runtime\<close>

text \<open>
  The code calls built-ins that the repository does not define. The ones whose result
  depends on text are a parameter of the model: \<open>JSON_parse\<close> is \<^verbatim>\<open>JSON.parse\<close> (\<open>Inl\<close> is the
  message of the SyntaxError it raises), \<open>toText\<close> is the text of a value that is not a
  string and that has one (\<^verbatim>\<open>String(v)\<close>, and the operand of a concatenating \<^verbatim>\<open>+\<close>),
  \<open>parseFloatText\<close> is \<^verbatim>\<open>parseFloat\<close> on a string (\<open>None\<close> is NaN).
\<close>

record runtime =
  JSON_parse :: "string \<Rightarrow> string + json"
  toText :: "json \<Rightarrow> string"
  parseFloatText :: "string \<Rightarrow> real option"

text \<open>
  The conversion of a value to a primitive. An object has the text that the inherited
  \<^verbatim>\<open>toString\<close> gives it, unless a member of its own hides that method: the member is a value
  of JSON and cannot be called, the inherited \<^verbatim>\<open>valueOf\<close> returns the object itself, and the
  conversion raises a TypeError. The text of an array joins the texts of its elements.
\<close>

fun convertible :: "json \<Rightarrow> bool" where
  "convertible (JObj kvs) = (map_of kvs ''toString'' = None)"
| "convertible (JArr xs) = list_all convertible xs"
| "convertible v = True"

fun jsString :: "runtime \<Rightarrow> json \<Rightarrow> error + string" where
  "jsString rt (JStr s) = Inr s"
| "jsString rt v = (if convertible v then Inr (toText rt v) else Inl TypeError)"

text \<open>\<^verbatim>\<open>parseFloat(v)\<close>: a number is its own value (it is printed and read back).\<close>

fun parseFloat :: "runtime \<Rightarrow> json \<Rightarrow> error + real option" where
  "parseFloat rt (JNum n) = Inr (Some n)"
| "parseFloat rt v = (case jsString rt v of Inl e \<Rightarrow> Inl e | Inr s \<Rightarrow> Inr (parseFloatText rt s))"

text \<open>\<^verbatim>\<open>a + b\<close>: both operands are converted to primitives, the left one first; a string, an
  array or an object on either side makes it a concatenation; otherwise \<^verbatim>\<open>null\<close> counts as 0
  and a boolean as 0 or 1.\<close>

fun stringy :: "json \<Rightarrow> bool" where
  "stringy (JStr s) = True"
| "stringy (JArr xs) = True"
| "stringy (JObj kvs) = True"
| "stringy v = False"

fun toNumber :: "json \<Rightarrow> real" where
  "toNumber (JNum n) = n"
| "toNumber (JBool b) = (if b then 1 else 0)"
| "toNumber v = 0"

definition jsAdd :: "runtime \<Rightarrow> json \<Rightarrow> json \<Rightarrow> error + json" where
  "jsAdd rt a b =
     (if stringy a \<or> stringy b then
        (case jsString rt a of
           Inl e \<Rightarrow> Inl e
         | Inr x \<Rightarrow> (case jsString rt b of Inl e \<Rightarrow> Inl e | Inr y \<Rightarrow> Inr (JStr (x @ y))))
      else Inr (JNum (toNumber a + toNumber b)))"

text \<open>\<^verbatim>\<open>a || b\<close> with a defined right operand.\<close>

fun orElse :: "json option \<Rightarrow> json \<Rightarrow> json" where
  "orElse None d = d"
| "orElse (Some v) d = (if truthy v then v else d)"

text \<open>\<^verbatim>\<open>typeof\<close> and \<^verbatim>\<open>Array.isArray\<close>.\<close>

fun typeofJs :: "json option \<Rightarrow> string" where
  "typeofJs None = ''undefined''"
| "typeofJs (Some JNull) = ''object''"
| "typeofJs (Some (JBool b)) = ''boolean''"
| "typeofJs (Some (JNum n)) = ''number''"
| "typeofJs (Some (JStr s)) = ''string''"
| "typeofJs (Some (JArr xs)) = ''object''"
| "typeofJs (Some (JObj kvs)) = ''object''"

fun isArray :: "json option \<Rightarrow> bool" where
  "isArray (Some (JArr xs)) = True"
| "isArray v = False"

text \<open>\<^verbatim>\<open>Object.entries\<close> of a value that is not \<^verbatim>\<open>null\<close>: the members of an object, the
  indexed elements of an array, the indexed characters of a string, nothing for a number or
  a boolean. Every call in the code is guarded by a truthiness test of its argument.\<close>

fun entriesOf :: "json \<Rightarrow> (string \<times> json) list" where
  "entriesOf (JObj kvs) = kvs"
| "entriesOf (JArr xs) = zip (map showNat [0..<length xs]) xs"
| "entriesOf (JStr s) = zip (map showNat [0..<length s]) (map (\<lambda>c. JStr [c]) s)"
| "entriesOf v = []"

text \<open>\<^verbatim>\<open>s.trim()\<close> and \<^verbatim>\<open>s.startsWith('{')\<close>. The white space and the line terminators of
  ECMAScript below U+0100 are TAB, LF, VT, FF, CR, the space and the no-break space U+00A0
  (the others, such as U+FEFF and U+2028, are code units that the model does not have).\<close>

definition isSpace :: "char \<Rightarrow> bool" where
  "isSpace c =
     (c = CHR '' '' \<or> c = CHR 0x09 \<or> c = CHR 0x0A \<or> c = CHR 0x0B \<or> c = CHR 0x0C
      \<or> c = CHR 0x0D \<or> c = CHR 0xA0)"

definition trim :: "string \<Rightarrow> string" where
  "trim s = rev (dropWhile isSpace (rev (dropWhile isSpace s)))"

fun startsWithBrace :: "string \<Rightarrow> bool" where
  "startsWithBrace [] = False"
| "startsWithBrace (c # cs) = (c = CHR ''{'')"

text \<open>Sequencing of computations that may raise; \<^verbatim>\<open>forEach\<close> with a callback that may raise.\<close>

definition bindE :: "error + 'a \<Rightarrow> ('a \<Rightarrow> error + 'b) \<Rightarrow> error + 'b" where
  "bindE m f = (case m of Inl e \<Rightarrow> Inl e | Inr x \<Rightarrow> f x)"

fun mapE :: "('a \<Rightarrow> error + 'b) \<Rightarrow> 'a list \<Rightarrow> error + 'b list" where
  "mapE f [] = Inr []"
| "mapE f (x # xs) =
     (case f x of Inl e \<Rightarrow> Inl e
      | Inr y \<Rightarrow> (case mapE f xs of Inl e \<Rightarrow> Inl e | Inr ys \<Rightarrow> Inr (y # ys)))"

text \<open>A path or field name of a schema as a condition (\<^verbatim>\<open>if (schema.categoriesPath)\<close>) and
  as a property key (\<^verbatim>\<open>item[keyField]\<close>, where an unset field reads the key "undefined").\<close>

fun truthyStr :: "string option \<Rightarrow> bool" where
  "truthyStr None = False"
| "truthyStr (Some s) = (s \<noteq> [])"

fun propKey :: "string option \<Rightarrow> string" where
  "propKey None = ''undefined''"
| "propKey (Some s) = s"

section \<open>Extraction helpers\<close>

definition getPrimaryValue :: "json option \<Rightarrow> string \<Rightarrow> error + json option" where
  "getPrimaryValue jsonData schemaKey =
     (case map_of COLUMN_SCHEMAS schemaKey of
        None \<Rightarrow> Inr None
      | Some schema \<Rightarrow>
          if \<not> truthyStr (primaryValuePath schema) then Inr None
          else getNestedValue jsonData (propKey (primaryValuePath schema)))"

text \<open>
  An object that the code builds with an object literal: its fields in the order of the
  literal, a field holding \<^verbatim>\<open>undefined\<close> being \<open>None\<close>.
\<close>

type_synonym jsobject = "(string \<times> json option) list"

text \<open>The callback of the \<^verbatim>\<open>forEach\<close> over an array of items (pattern C).\<close>

definition arrayItem :: "schema \<Rightarrow> json \<Rightarrow> error + jsobject" where
  "arrayItem schema item =
     bindE (getProp (Some item) (propKey (arrayItemKeyField schema))) (\<lambda>name.
     bindE (getProp (Some item) (propKey (arrayItemValueField schema))) (\<lambda>val.
     bindE (getProp (Some item) ''percentage_of_total'') (\<lambda>pct.
     bindE (getProp (Some item) ''fiscal_year_breakdown'') (\<lambda>fy.
       Inr [(''name'', name), (''value'', val), (''percentage'', pct),
            (''fiscalYears'', Some (orElse fy (JObj [])))]))))"

text \<open>The callback of the \<^verbatim>\<open>forEach\<close> over the entries of an object map (pattern B):
  \<^verbatim>\<open>data.total_obligations !== undefined ? data.total_obligations : data.total\<close>.\<close>

definition mapEntry :: "string \<times> json \<Rightarrow> error + jsobject" where
  "mapEntry entry =
     (case entry of (name, data) \<Rightarrow>
        bindE (getProp (Some data) ''total_obligations'') (\<lambda>t.
        bindE (if t \<noteq> None then getProp (Some data) ''total_obligations''
               else getProp (Some data) ''total'') (\<lambda>val.
        bindE (getProp (Some data) ''percentage_of_total'') (\<lambda>pct.
        bindE (getProp (Some data) ''fiscal_years'') (\<lambda>fy.
          Inr [(''name'', Some (JStr name)), (''value'', val), (''percentage'', pct),
               (''fiscalYears'', Some (orElse fy (JObj [])))])))))"

text \<open>\<^verbatim>\<open>categories.forEach(...)\<close>: only an array has the method; on any other value the
  call raises a TypeError.\<close>

fun forEachItem :: "(json \<Rightarrow> error + 'a) \<Rightarrow> json \<Rightarrow> error + 'a list" where
  "forEachItem f (JArr items) = mapE f items"
| "forEachItem f v = Inl TypeError"

definition getCategories :: "json option \<Rightarrow> string \<Rightarrow> error + jsobject list" where
  "getCategories jsonData schemaKey =
     (case map_of COLUMN_SCHEMAS schemaKey of
        None \<Rightarrow> Inr []
      | Some schema \<Rightarrow>
          if \<not> truthyStr (categoriesPath schema) then Inr []
          else
            bindE (getNestedValue jsonData (propKey (categoriesPath schema))) (\<lambda>categories.
              (case categories of
                 None \<Rightarrow> Inr []
               | Some c \<Rightarrow>
                   if \<not> truthy c then Inr []
                   else if categoryValueType schema = Some ''array''
                     then forEachItem (arrayItem schema) c
                     else mapE mapEntry (entriesOf c))))"

text \<open>
  The order in which the keys of an object are enumerated: the keys that are array indices
  (canonical numeric strings below \<open>2\<^sup>3\<^sup>2 - 1\<close>) in ascending order, then the other keys
  in the order of their creation. A year such as \<^verbatim>\<open>"2024"\<close> is an array index.
\<close>

definition digitOf :: "char \<Rightarrow> nat option" where
  "digitOf c = map_of (zip ''0123456789'' [0, 1, 2, 3, 4, 5, 6, 7, 8, 9]) c"

fun digitsValue :: "string \<Rightarrow> nat \<Rightarrow> nat option" where
  "digitsValue [] acc = Some acc"
| "digitsValue (c # cs) acc =
     (case digitOf c of None \<Rightarrow> None | Some d \<Rightarrow> digitsValue cs (10 * acc + d))"

definition arrayIndex :: "string \<Rightarrow> nat option" where
  "arrayIndex k =
     (if k = [] then None
      else (case digitsValue k 0 of
              None \<Rightarrow> None
            | Some n \<Rightarrow> if showNat n = k \<and> n < 4294967295 then Some n else None))"

definition enumeratedBefore :: "string \<Rightarrow> string \<Rightarrow> bool" where
  "enumeratedBefore k k' =
     (case arrayIndex k of
        None \<Rightarrow> False
      | Some n \<Rightarrow> (case arrayIndex k' of None \<Rightarrow> True | Some m \<Rightarrow> n < m))"

text \<open>\<^verbatim>\<open>fyTotals[year] = (fyTotals[year] || 0) + value\<close> on the object \<^verbatim>\<open>fyTotals\<close>, kept as
  an association list in the order of enumeration: a year already present keeps its place,
  a new one takes its place in that order.\<close>

fun assign :: "string \<Rightarrow> json \<Rightarrow> (string \<times> json) list \<Rightarrow> (string \<times> json) list" where
  "assign k v [] = [(k, v)]"
| "assign k v ((k', v') # kvs) =
     (if k' = k then (k, v) # kvs
      else if enumeratedBefore k k' then (k, v) # (k', v') # kvs
      else (k', v') # assign k v kvs)"

definition addYear :: "runtime \<Rightarrow> (string \<times> json) list \<Rightarrow> string \<times> json \<Rightarrow> error + (string \<times> json) list" where
  "addYear rt fyTotals entry =
     (case entry of (year, val) \<Rightarrow>
        bindE (jsAdd rt (orElse (map_of fyTotals year) (JNum 0)) val) (\<lambda>total.
          Inr (assign year total fyTotals)))"

text \<open>Pattern B: the callback over the values of the object map.\<close>

definition addCategory :: "runtime \<Rightarrow> (string \<times> json) list \<Rightarrow> json \<Rightarrow> error + (string \<times> json) list" where
  "addCategory rt fyTotals categoryData =
     bindE (getProp (Some categoryData) ''fiscal_years'') (\<lambda>fy.
       (case fy of
          None \<Rightarrow> Inr fyTotals
        | Some f \<Rightarrow> if truthy f then reduceE (addYear rt) fyTotals (entriesOf f)
                    else Inr fyTotals))"

text \<open>Pattern C: the callbacks over the items and over the years of an item's breakdown:
  \<^verbatim>\<open>yearData.obligations || yearData.total_price || yearData.total_sales || 0\<close>.\<close>

definition addBreakdownYear :: "runtime \<Rightarrow> (string \<times> json) list \<Rightarrow> string \<times> json \<Rightarrow> error + (string \<times> json) list" where
  "addBreakdownYear rt fyTotals entry =
     (case entry of (year, yearData) \<Rightarrow>
        bindE (getProp (Some yearData) ''obligations'') (\<lambda>a.
          if truthyOpt a then addYear rt fyTotals (year, orElse a (JNum 0))
          else bindE (getProp (Some yearData) ''total_price'') (\<lambda>b.
            if truthyOpt b then addYear rt fyTotals (year, orElse b (JNum 0))
            else bindE (getProp (Some yearData) ''total_sales'') (\<lambda>c.
              addYear rt fyTotals (year, orElse c (JNum 0))))))"

definition addItem :: "runtime \<Rightarrow> (string \<times> json) list \<Rightarrow> json \<Rightarrow> error + (string \<times> json) list" where
  "addItem rt fyTotals item =
     bindE (getProp (Some item) ''fiscal_year_breakdown'') (\<lambda>fyBreakdown.
       (case fyBreakdown of
          None \<Rightarrow> Inr fyTotals
        | Some b \<Rightarrow> if truthy b then reduceE (addBreakdownYear rt) fyTotals (entriesOf b)
                    else Inr fyTotals))"

definition getFiscalYearData :: "runtime \<Rightarrow> json option \<Rightarrow> string \<Rightarrow> error + json option" where
  "getFiscalYearData rt jsonData schemaKey =
     (case map_of COLUMN_SCHEMAS schemaKey of
        None \<Rightarrow> Inr None
      | Some schema \<Rightarrow>
          if truthyStr (timeSeriesPath schema)
            then getNestedValue jsonData (propKey (timeSeriesPath schema))
          else if truthyStr (categoriesPath schema) then
            bindE (getNestedValue jsonData (propKey (categoriesPath schema))) (\<lambda>categories.
              (case categories of
                 None \<Rightarrow> Inr None
               | Some c \<Rightarrow>
                   if \<not> truthy c then Inr None
                   else
                     bindE (case c of
                              JArr items \<Rightarrow> reduceE (addItem rt) [] items
                            | _ \<Rightarrow> reduceE (addCategory rt) [] (map snd (entriesOf c)))
                       (\<lambda>fyTotals. Inr (if length fyTotals > 0 then Some (JObj fyTotals) else None))))
          else Inr None)"

text \<open>
  The object that \<^verbatim>\<open>extractNormalizedData\<close> builds, its two inner object literals
  flattened: \<^verbatim>\<open>schema.column\<close> is \<open>schemaColumn\<close> and so on, \<^verbatim>\<open>metadata.processedDate\<close> is
  \<open>processedDate\<close>, \<^verbatim>\<open>metadata.sourceFile\<close> is \<open>sourceFile\<close>. The function returns \<^verbatim>\<open>null\<close>
  (\<open>None\<close>) for an unknown key; the fields are evaluated in the order of the literal, and
  the two reads \<^verbatim>\<open>jsonData.processed_date\<close> and \<^verbatim>\<open>jsonData.source_file\<close> are not guarded.
\<close>

record normalized =
  schemaColumn :: string
  schemaColumnIndex :: nat
  schemaHeaderName :: string
  schemaStructurePattern :: string
  schemaDataSource :: string
  primaryValue :: "json option"
  fiscalYears :: "json option"
  categories :: "jsobject list"
  processedDate :: "json option"
  sourceFile :: "json option"

section \<open>Validation functions\<close>

record validation =
  isValid :: bool
  errors :: "string list"
  warnings :: "string list"

text \<open>The callback of the \<^verbatim>\<open>forEach\<close> over the required fields.\<close>

definition requireField :: "json option \<Rightarrow> validation \<Rightarrow> string \<Rightarrow> error + validation" where
  "requireField jsonData result field =
     bindE (getNestedValue jsonData field) (\<lambda>v.
       if v = None
         then Inr (result\<lparr>errors := errors result @ [''Missing required field: '' @ field],
                          isValid := False\<rparr>)
         else Inr result)"

definition checkPrimaryValue :: "schema \<Rightarrow> json option \<Rightarrow> validation \<Rightarrow> error + validation" where
  "checkPrimaryValue schema jsonData result =
     (if truthyStr (primaryValuePath schema) then
        bindE (getNestedValue jsonData (propKey (primaryValuePath schema))) (\<lambda>primaryValue.
          if primaryValue = None
            then Inr (result\<lparr>warnings := warnings result @
                       [''Primary value path '' @ [CHR 0x27] @ propKey (primaryValuePath schema)
                          @ [CHR 0x27] @ '' not found'']\<rparr>)
          else if typeofJs primaryValue \<noteq> ''number''
            then Inr (result\<lparr>warnings := warnings result @
                       [''Primary value is not a number: '' @ typeofJs primaryValue]\<rparr>)
          else Inr result)
      else Inr result)"

definition checkCategories :: "schema \<Rightarrow> json option \<Rightarrow> validation \<Rightarrow> error + validation" where
  "checkCategories schema jsonData result =
     (if truthyStr (categoriesPath schema) then
        bindE (getNestedValue jsonData (propKey (categoriesPath schema))) (\<lambda>categories.
          if categories = None
            then Inr (result\<lparr>warnings := warnings result @
                       [''Categories path '' @ [CHR 0x27] @ propKey (categoriesPath schema)
                          @ [CHR 0x27] @ '' not found'']\<rparr>)
          else if categoryValueType schema = Some ''array'' \<and> \<not> isArray categories
            then Inr (result\<lparr>errors := errors result @
                       [''Expected array at '' @ [CHR 0x27] @ propKey (categoriesPath schema)
                          @ [CHR 0x27] @ '', got '' @ typeofJs categories],
                      isValid := False\<rparr>)
          else if categoryValueType schema = Some ''object_map''
                  \<and> (isArray categories \<or> typeofJs categories \<noteq> ''object'')
            then Inr (result\<lparr>errors := errors result @
                       [''Expected object at '' @ [CHR 0x27] @ propKey (categoriesPath schema)
                          @ [CHR 0x27] @ '', got ''
                          @ (if isArray categories then ''array'' else typeofJs categories)],
                      isValid := False\<rparr>)
          else Inr result)
      else Inr result)"

definition validateJsonStructure :: "json option \<Rightarrow> string \<Rightarrow> error + validation" where
  "validateJsonStructure jsonData schemaKey =
     (case map_of COLUMN_SCHEMAS schemaKey of
        None \<Rightarrow>
          Inr \<lparr>isValid = False, errors = [''Unknown schema key: '' @ schemaKey], warnings = []\<rparr>
      | Some schema \<Rightarrow>
          if \<not> truthyOpt jsonData \<or> typeofJs jsonData \<noteq> ''object''
            then Inr \<lparr>isValid = False, errors = [''JSON data is null or not an object''],
                      warnings = []\<rparr>
          else
            bindE (reduceE (requireField jsonData)
                     \<lparr>isValid = True, errors = [], warnings = []\<rparr> (requiredFields schema))
              (\<lambda>r1. bindE (checkPrimaryValue schema jsonData r1)
                (\<lambda>r2. checkCategories schema jsonData r2)))"

text \<open>The result of \<^verbatim>\<open>parseAndValidateJson\<close>: the fields \<^verbatim>\<open>isValid\<close>, \<^verbatim>\<open>data\<close> and \<^verbatim>\<open>error\<close>
  (\<^verbatim>\<open>null\<close> is \<open>JNull\<close> for the data and \<open>None\<close> for the message).\<close>

record parseResult =
  parsedValid :: bool
  parsedData :: json
  parseError :: "string option"

definition parseAndValidateJson :: "runtime \<Rightarrow> json option \<Rightarrow> error + parseResult" where
  "parseAndValidateJson rt jsonString =
     (case jsonString of
        Some (JStr s) \<Rightarrow>
          if s = [] then
            Inr \<lparr>parsedValid = False, parsedData = JNull, parseError = Some ''Input is not a string''\<rparr>
          else if \<not> startsWithBrace (trim s) then
            Inr \<lparr>parsedValid = False, parsedData = JNull,
                 parseError = Some ''String does not start with {''\<rparr>
          else (case JSON_parse rt (trim s) of
                  Inr d \<Rightarrow> Inr \<lparr>parsedValid = True, parsedData = d, parseError = None\<rparr>
                | Inl msg \<Rightarrow> Inr \<lparr>parsedValid = False, parsedData = JNull, parseError = Some msg\<rparr>)
      | _ \<Rightarrow>
          Inr \<lparr>parsedValid = False, parsedData = JNull, parseError = Some ''Input is not a string''\<rparr>)"

text \<open>The three object literals that \<^verbatim>\<open>validateRowJsonColumns\<close> stores per column.\<close>

datatype columnReport =
    EmptyCell string
  | ParseErrorCell "string option" string
  | CheckedCell string "string list" "string list" string

fun status :: "columnReport \<Rightarrow> string" where
  "status (EmptyCell k) = ''empty''"
| "status (ParseErrorCell e k) = ''parse_error''"
| "status (CheckedCell s es ws k) = s"

text \<open>\<^verbatim>\<open>isNaN(key)\<close> on a key of the index map: a key of decimal digits is a number.\<close>

definition isDigit :: "char \<Rightarrow> bool" where
  "isDigit c = (c \<in> set ''0123456789'')"

definition isNaNKey :: "string \<Rightarrow> bool" where
  "isNaNKey k = (\<not> list_all isDigit k)"

text \<open>\<^verbatim>\<open>rowData[i]\<close>: \<^verbatim>\<open>undefined\<close> beyond the end of the row.\<close>

definition nthOpt :: "'a list \<Rightarrow> nat \<Rightarrow> 'a option" where
  "nthOpt xs i = (if i < length xs then Some (xs ! i) else None)"

text \<open>\<^verbatim>\<open>cellValue.trim()\<close> on a truthy cell: only a string has the method.\<close>

fun trimCall :: "json option \<Rightarrow> error + string" where
  "trimCall (Some (JStr s)) = Inr (trim s)"
| "trimCall v = Inl TypeError"

text \<open>The callback of the \<^verbatim>\<open>forEach\<close> over the entries of the index map: \<open>None\<close> for a
  numeric key, which is skipped.\<close>

definition columnCheck :: "runtime \<Rightarrow> json list \<Rightarrow> string \<times> string \<Rightarrow> error + (string \<times> columnReport) option" where
  "columnCheck rt rowData entry =
     (case entry of (key, schemaKey) \<Rightarrow>
        if \<not> isNaNKey key then Inr None
        else (case map_of COLUMN_SCHEMAS schemaKey of
                None \<Rightarrow> Inl TypeError
              | Some schema \<Rightarrow>
                  bindE (if \<not> truthyOpt (nthOpt rowData (columnIndex schema)) then Inr True
                         else bindE (trimCall (nthOpt rowData (columnIndex schema)))
                                (\<lambda>t. Inr (t = [])))
                    (\<lambda>blank.
                       if blank then Inr (Some (key, EmptyCell schemaKey))
                       else
                         bindE (parseAndValidateJson rt (nthOpt rowData (columnIndex schema)))
                           (\<lambda>parsed.
                              if \<not> parsedValid parsed
                                then Inr (Some (key, ParseErrorCell (parseError parsed) schemaKey))
                              else
                                bindE (validateJsonStructure (Some (parsedData parsed)) schemaKey)
                                  (\<lambda>v. Inr (Some (key,
                                     CheckedCell (if isValid v then ''valid'' else ''invalid'')
                                       (errors v) (warnings v) schemaKey)))))))"

definition validateRowJsonColumns :: "runtime \<Rightarrow> json list \<Rightarrow> error + (string \<times> columnReport) list" where
  "validateRowJsonColumns rt rowData =
     bindE (mapE (columnCheck rt rowData) COLUMN_INDEX_MAP)
       (\<lambda>rs. Inr (map the (filter (\<lambda>r. r \<noteq> None) rs)))"

section \<open>Data manager\<close>

text \<open>
  An entity of the cache: the fields \<^verbatim>\<open>id\<close>, \<^verbatim>\<open>name\<close>, \<^verbatim>\<open>type\<close> and \<^verbatim>\<open>rowIndex\<close> of the object
  literal, the columns assigned in the loop over the column mapping (in that order), and
  the three derived fields.
\<close>

record entity =
  entityId :: string
  entityName :: string
  entityType :: string
  rowIndex :: nat
  columns :: "(string \<times> json option) list"
  totalObligations :: json
  tier :: json
  hasAIProducts :: bool

text \<open>The cache: a list that is \<^verbatim>\<open>null\<close> is \<open>None\<close>; the time stamp is in milliseconds.\<close>

record cache =
  agencies :: "entity list option"
  oems :: "entity list option"
  vendors :: "entity list option"
  lastUpdated :: "int option"
  isLoading :: bool

definition emptyCache :: cache where
  "emptyCache = \<lparr>agencies = None, oems = None, vendors = None, lastUpdated = None,
                  isLoading = False\<rparr>"

definition TTL :: int where
  "TTL = 2 * 60 * 1000"

text \<open>The column mapping of a sheet: its name and the 1-based index of each column.\<close>

record sheetConfig =
  sheetName :: string
  columnsOf :: "(string \<times> nat) list"

definition sharedColumns :: "(string \<times> nat) list" where
  "sharedColumns =
     [(''name'', 2), (''parentCompany'', 3), (''obligations'', 4), (''smallBusiness'', 5),
      (''sumTier'', 6), (''sumType'', 7), (''contractVehicle'', 8), (''fundingDepartment'', 9),
      (''discount'', 10), (''topRefPiid'', 11), (''topPiid'', 12), (''activeContracts'', 13),
      (''discountOfferings'', 14), (''aiProduct'', 15), (''aiCategory'', 16),
      (''topBicProducts'', 17), (''reseller'', 18), (''bicReseller'', 19), (''bicOem'', 20),
      (''fasOem'', 21), (''fundingAgency'', 22), (''bicTopProductsPerAgency'', 23),
      (''oneGovTier'', 24), (''fasDataTable'', 25), (''fasTimestamp'', 26),
      (''bicDataTable'', 27), (''bicTimestamp'', 28)]"

definition columnMappings :: "(string \<times> sheetConfig) list" where
  "columnMappings =
     [(''agency'', \<lparr>sheetName = ''Agency'', columnsOf = (''agencyCode'', 1) # sharedColumns\<rparr>),
      (''oem'', \<lparr>sheetName = ''OEM'', columnsOf = (''duns'', 1) # sharedColumns\<rparr>),
      (''vendor'', \<lparr>sheetName = ''Vendor'', columnsOf = (''uei'', 1) # sharedColumns\<rparr>)]"

text \<open>\<^verbatim>\<open>needsRefresh\<close>, with \<open>now\<close> for \<^verbatim>\<open>Date.now()\<close>: \<^verbatim>\<open>!this.cache.lastUpdated\<close> holds for
  \<^verbatim>\<open>null\<close> and for 0; a list, even an empty one, is truthy.\<close>

definition needsRefresh :: "int \<Rightarrow> cache \<Rightarrow> bool" where
  "needsRefresh now c =
     (case lastUpdated c of
        None \<Rightarrow> True
      | Some t \<Rightarrow>
          if t = 0 then True
          else if agencies c = None \<or> oems c = None \<or> vendors c = None then True
          else now - t > TTL)"

definition isJsonColumn :: "string \<Rightarrow> bool" where
  "isJsonColumn columnName =
     (columnName \<in> set
        [''obligations'', ''smallBusiness'', ''sumTier'', ''sumType'',
         ''contractVehicle'', ''fundingDepartment'', ''discount'',
         ''topRefPiid'', ''topPiid'', ''activeContracts'', ''discountOfferings'',
         ''aiProduct'', ''aiCategory'', ''topBicProducts'', ''reseller'',
         ''bicReseller'', ''bicOem'', ''fasOem'', ''fundingAgency'',
         ''bicTopProductsPerAgency'', ''oneGovTier''])"

text \<open>The body of the \<^verbatim>\<open>try\<close> in \<^verbatim>\<open>parseJSON\<close>, for a truthy cell value, and the function
  with its \<^verbatim>\<open>catch\<close>, which answers every error with \<^verbatim>\<open>null\<close>.\<close>

definition parseJSON_try :: "runtime \<Rightarrow> json \<Rightarrow> error + json" where
  "parseJSON_try rt v =
     (if typeofJs (Some v) = ''object'' then Inr v
      else
        bindE (jsString rt v) (\<lambda>text.
          if trim text = [] \<or> trim text = ''{}'' \<or> trim text = ''[]'' then Inr JNull
          else (case JSON_parse rt (trim text) of
                  Inl msg \<Rightarrow> Inl SyntaxError
                | Inr d \<Rightarrow> Inr d)))"

definition parseJSON :: "runtime \<Rightarrow> json option \<Rightarrow> error + json" where
  "parseJSON rt cell =
     (case cell of
        None \<Rightarrow> Inr JNull
      | Some v \<Rightarrow>
          if \<not> truthy v then Inr JNull
          else (case parseJSON_try rt v of Inl e \<Rightarrow> Inr JNull | Inr d \<Rightarrow> Inr d))"

text \<open>The callback of the \<^verbatim>\<open>reduce\<close> in \<^verbatim>\<open>extractTotalObligations\<close>:
  \<^verbatim>\<open>sum + (parseFloat(val) || 0)\<close>.\<close>

definition addParsed :: "runtime \<Rightarrow> real \<Rightarrow> json \<Rightarrow> error + real" where
  "addParsed rt acc val =
     bindE (parseFloat rt val) (\<lambda>parsed.
       Inr (acc + (case parsed of None \<Rightarrow> 0 | Some x \<Rightarrow> x)))"

text \<open>\<^verbatim>\<open>v?.k\<close>: \<^verbatim>\<open>undefined\<close> when \<open>v\<close> is \<^verbatim>\<open>null\<close> or \<^verbatim>\<open>undefined\<close>.\<close>

fun optChain :: "json option \<Rightarrow> string \<Rightarrow> json option" where
  "optChain None k = None"
| "optChain (Some JNull) k = None"
| "optChain (Some v) k = member v k"

text \<open>\<^verbatim>\<open>extractTotalObligations\<close>: a field that is tested and returned is never
  \<^verbatim>\<open>undefined\<close> where it is returned.\<close>

definition extractTotalObligations :: "runtime \<Rightarrow> json \<Rightarrow> error + json" where
  "extractTotalObligations rt obligationsJson =
     (if \<not> truthy obligationsJson then Inr (JNum 0)
      else if truthyOpt (member obligationsJson ''total_obligated'')
        then Inr (orElse (member obligationsJson ''total_obligated'') (JNum 0))
      else if truthyOpt (optChain (member obligationsJson ''summary'') ''total_obligations'')
        then Inr (orElse (optChain (member obligationsJson ''summary'') ''total_obligations'')
                    (JNum 0))
      else
        (case member obligationsJson ''fiscal_year_obligations'' of
           None \<Rightarrow> Inr (JNum 0)
         | Some f \<Rightarrow>
             if truthy f
               then bindE (reduceE (addParsed rt) 0 (map snd (entriesOf f)))
                      (\<lambda>total. Inr (JNum total))
             else Inr (JNum 0)))"

text \<open>A field of the entity under construction: \<^verbatim>\<open>undefined\<close> when it was not assigned.\<close>

definition field :: "(string \<times> json option) list \<Rightarrow> string \<Rightarrow> json option" where
  "field cols k = (case map_of cols k of None \<Rightarrow> None | Some v \<Rightarrow> v)"

definition extractTier :: "(string \<times> json option) list \<Rightarrow> json" where
  "extractTier cols =
     orElse (optChain (field cols ''oneGovTier'') ''mode_tier'')
       (orElse (optChain (field cols ''sumTier'') ''tier'') JNull)"

definition checkAIProducts :: "(string \<times> json option) list \<Rightarrow> bool" where
  "checkAIProducts cols =
     (case field cols ''aiProduct'' of
        None \<Rightarrow> False
      | Some a \<Rightarrow> truthy a \<and> length (entriesOf a) > 0)"

text \<open>\<^verbatim>\<open>row[colIndex - 1]\<close> for a 1-based column index: \<^verbatim>\<open>undefined\<close> outside the row.\<close>

definition cellAt :: "json list \<Rightarrow> nat \<Rightarrow> json option" where
  "cellAt row colIndex = (if colIndex = 0 then None else nthOpt row (colIndex - 1))"

definition nameCell :: "sheetConfig \<Rightarrow> json list \<Rightarrow> json option" where
  "nameCell config row =
     (case map_of (columnsOf config) ''name'' of None \<Rightarrow> None | Some n \<Rightarrow> cellAt row n)"

text \<open>The inner loop of \<^verbatim>\<open>loadEntitySheet\<close>: one assignment per column other than the name.\<close>

definition parseColumn :: "runtime \<Rightarrow> json list \<Rightarrow> string \<times> nat \<Rightarrow> error + (string \<times> json option)" where
  "parseColumn rt row entry =
     (case entry of (key, colIndex) \<Rightarrow>
        if isJsonColumn key
          then bindE (parseJSON rt (cellAt row colIndex)) (\<lambda>d. Inr (key, Some d))
          else Inr (key, cellAt row colIndex))"

text \<open>The body of the loop over the rows: \<open>None\<close> for a row that is skipped.\<close>

definition loadRow :: "runtime \<Rightarrow> string \<Rightarrow> sheetConfig \<Rightarrow> nat \<Rightarrow> json list \<Rightarrow> error + entity option" where
  "loadRow rt etype config i row =
     bindE (if \<not> truthyOpt (nameCell config row) then Inr True
            else bindE (trimCall (nameCell config row)) (\<lambda>t. Inr (t = [])))
       (\<lambda>blank.
          if blank then Inr None
          else
            bindE (trimCall (nameCell config row)) (\<lambda>nm.
            bindE (mapE (parseColumn rt row)
                     (filter (\<lambda>e. fst e \<noteq> ''name'') (columnsOf config))) (\<lambda>cols.
            bindE (case field cols ''obligations'' of
                     None \<Rightarrow> Inr (JNum 0)
                   | Some ob \<Rightarrow> extractTotalObligations rt ob) (\<lambda>total.
              Inr (Some \<lparr>entityId = etype @ ''_'' @ showNat i, entityName = nm,
                          entityType = etype, rowIndex = i, columns = cols,
                          totalObligations = total,
                          tier = extractTier cols,
                          hasAIProducts = checkAIProducts cols\<rparr>)))))"

fun loadRows :: "runtime \<Rightarrow> string \<Rightarrow> sheetConfig \<Rightarrow> nat \<Rightarrow> json list list \<Rightarrow> error + entity list" where
  "loadRows rt etype config i [] = Inr []"
| "loadRows rt etype config i (row # rows) =
     (case loadRow rt etype config i row of
        Inl e \<Rightarrow> Inl e
      | Inr r \<Rightarrow>
          (case loadRows rt etype config (Suc i) rows of
             Inl e \<Rightarrow> Inl e
           | Inr es \<Rightarrow> Inr (case r of None \<Rightarrow> es | Some en \<Rightarrow> en # es)))"

text \<open>
  The row source: \<^verbatim>\<open>getSheetByName\<close> gives no sheet (\<open>None\<close>) or a sheet whose
  \<^verbatim>\<open>getDataRange().getValues()\<close> raises or returns the rows.
\<close>

type_synonym spreadsheet = "string \<Rightarrow> (error + json list list) option"

definition loadEntitySheet :: "runtime \<Rightarrow> spreadsheet \<Rightarrow> string \<Rightarrow> error + entity list" where
  "loadEntitySheet rt spreadsheet etype =
     (case map_of columnMappings etype of
        None \<Rightarrow> Inl TypeError
      | Some config \<Rightarrow>
          (case spreadsheet (sheetName config) of
             None \<Rightarrow> Inr []
           | Some (Inl e) \<Rightarrow> Inl e
           | Some (Inr values) \<Rightarrow> loadRows rt etype config 1 (drop 1 values)))"

text \<open>
  What a call of the manager leaves behind: the cache after the call, the reads of the row
  source it made, in order, and what it returned or raised.
\<close>

record 'a outcome =
  state :: cache
  reads :: "string list"
  result :: "error + 'a"

text \<open>
  \<^verbatim>\<open>loadAllData\<close>. \<open>openById\<close> is what \<^verbatim>\<open>SpreadsheetApp.openById\<close> returns or raises;
  \<open>now\<close> is \<^verbatim>\<open>Date.now()\<close> at the test of the cache and \<open>later\<close> at the end of the load.
\<close>

definition loadAllData ::
  "runtime \<Rightarrow> error + spreadsheet \<Rightarrow> int \<Rightarrow> int \<Rightarrow> cache \<Rightarrow> bool \<Rightarrow> cache outcome" where
  "loadAllData rt openById now later c forceRefresh =
     (if \<not> forceRefresh \<and> \<not> needsRefresh now c
        then \<lparr>state = c, reads = [], result = Inr c\<rparr>
      else if isLoading c
        then \<lparr>state = c, reads = [], result = Inr c\<rparr>
      else
        (case openById of
           Inl e \<Rightarrow> \<lparr>state = c\<lparr>isLoading := False\<rparr>, reads = [''openById''], result = Inl e\<rparr>
         | Inr spreadsheet \<Rightarrow>
             (case loadEntitySheet rt spreadsheet ''agency'' of
                Inl e \<Rightarrow> \<lparr>state = c\<lparr>isLoading := False\<rparr>,
                          reads = [''openById'', ''agency''], result = Inl e\<rparr>
              | Inr a \<Rightarrow>
                  (case loadEntitySheet rt spreadsheet ''oem'' of
                     Inl e \<Rightarrow> \<lparr>state = c\<lparr>agencies := Some a, isLoading := False\<rparr>,
                               reads = [''openById'', ''agency'', ''oem''], result = Inl e\<rparr>
                   | Inr b \<Rightarrow>
                       (case loadEntitySheet rt spreadsheet ''vendor'' of
                          Inl e \<Rightarrow>
                            \<lparr>state = c\<lparr>agencies := Some a, oems := Some b, isLoading := False\<rparr>,
                             reads = [''openById'', ''agency'', ''oem'', ''vendor''],
                             result = Inl e\<rparr>
                        | Inr d \<Rightarrow>
                            \<lparr>state = c\<lparr>agencies := Some a, oems := Some b, vendors := Some d,
                                        lastUpdated := Some later, isLoading := False\<rparr>,
                             reads = [''openById'', ''agency'', ''oem'', ''vendor''],
                             result = Inr (c\<lparr>agencies := Some a, oems := Some b,
                                            vendors := Some d, lastUpdated := Some later,
                                            isLoading := False\<rparr>)\<rparr>)))))"

text \<open>\<^verbatim>\<open>s.toLowerCase()\<close>: the capital letters below U+0100 are those of ASCII and
  U+00C0 to U+00DE without the multiplication sign U+00D7; the small letter is 32 further.\<close>

definition lowerChar :: "char \<Rightarrow> char" where
  "lowerChar c =
     (case map_of
        (zip (''ABCDEFGHIJKLMNOPQRSTUVWXYZ'' @
            [CHR 0xC0, CHR 0xC1, CHR 0xC2, CHR 0xC3, CHR 0xC4, CHR 0xC5, CHR
             0xC6, CHR 0xC7, CHR 0xC8, CHR 0xC9, CHR 0xCA, CHR 0xCB, CHR 0xCC,
             CHR 0xCD, CHR 0xCE, CHR 0xCF, CHR 0xD0, CHR 0xD1, CHR 0xD2, CHR
             0xD3, CHR 0xD4, CHR 0xD5, CHR 0xD6, CHR 0xD8, CHR 0xD9, CHR 0xDA,
             CHR 0xDB, CHR 0xDC, CHR 0xDD, CHR 0xDE])
           (''abcdefghijklmnopqrstuvwxyz'' @
            [CHR 0xE0, CHR 0xE1, CHR 0xE2, CHR 0xE3, CHR 0xE4, CHR 0xE5, CHR
             0xE6, CHR 0xE7, CHR 0xE8, CHR 0xE9, CHR 0xEA, CHR 0xEB, CHR 0xEC,
             CHR 0xED, CHR 0xEE, CHR 0xEF, CHR 0xF0, CHR 0xF1, CHR 0xF2, CHR
             0xF3, CHR 0xF4, CHR 0xF5, CHR 0xF6, CHR 0xF8, CHR 0xF9, CHR 0xFA,
             CHR 0xFB, CHR 0xFC, CHR 0xFD, CHR 0xFE])) c of
        None \<Rightarrow> c
      | Some l \<Rightarrow> l)"

definition toLowerCase :: "string \<Rightarrow> string" where
  "toLowerCase s = map lowerChar s"

text \<open>The \<^verbatim>\<open>switch\<close> of \<^verbatim>\<open>getEntities\<close>; spreading a list that is \<^verbatim>\<open>null\<close> raises.\<close>

definition selectEntities :: "cache \<Rightarrow> string option \<Rightarrow> error + entity list option" where
  "selectEntities data etype =
     (if map_option toLowerCase etype = Some ''agency'' then Inr (agencies data)
      else if map_option toLowerCase etype = Some ''oem'' then Inr (oems data)
      else if map_option toLowerCase etype = Some ''vendor'' then Inr (vendors data)
      else (case (agencies data, oems data, vendors data) of
              (Some a, Some b, Some d) \<Rightarrow> Inr (Some (a @ b @ d))
            | _ \<Rightarrow> Inl TypeError))"

definition getEntities ::
  "runtime \<Rightarrow> error + spreadsheet \<Rightarrow> int \<Rightarrow> int \<Rightarrow> cache \<Rightarrow> string option \<Rightarrow> bool
     \<Rightarrow> (entity list option) outcome" where
  "getEntities rt openById now later c etype forceRefresh =
     (case result (loadAllData rt openById now later c forceRefresh) of
        Inl e \<Rightarrow>
          \<lparr>state = state (loadAllData rt openById now later c forceRefresh),
           reads = reads (loadAllData rt openById now later c forceRefresh),
           result = Inl e\<rparr>
      | Inr data \<Rightarrow>
          \<lparr>state = state (loadAllData rt openById now later c forceRefresh),
           reads = reads (loadAllData rt openById now later c forceRefresh),
           result = selectEntities data etype\<rparr>)"

section \<open>The wording of the specification\<close>

text \<open>
  The definitions of this section are not taken from the code: they put the words of the
  specification, and the conditions under which the properties below are stated, into
  terms of the model.
\<close>

text \<open>
  The derived total as the specification words it: the first value that is not absent of
  the primary value that the extractor finds in the obligations column, the total of the
  tier column, and the sum of the fiscal years of the obligations column.
\<close>

fun firstPresent :: "json option list \<Rightarrow> json option" where
  "firstPresent [] = None"
| "firstPresent (None # xs) = firstPresent xs"
| "firstPresent (Some v # xs) = Some v"

fun returned :: "error + json option \<Rightarrow> json option" where
  "returned (Inl e) = None"
| "returned (Inr v) = v"

text \<open>The sum of the fiscal years that the loader returns when no value of the years
  fails to convert: every value adds the number that \<^verbatim>\<open>parseFloat\<close> reads in it, 0 when it
  reads none.\<close>

definition plusParsed :: "runtime \<Rightarrow> real \<Rightarrow> json \<Rightarrow> real" where
  "plusParsed rt acc val = acc + (case parseFloat rt val of Inr (Some x) \<Rightarrow> x | _ \<Rightarrow> 0)"

definition specTotalObligations :: "runtime \<Rightarrow> (string \<times> json option) list \<Rightarrow> json option" where
  "specTotalObligations rt cols =
     firstPresent
       [returned (getPrimaryValue (field cols ''obligations'') ''obligations''),
        returned (getPrimaryValue (field cols ''oneGovTier'') ''oneGovTier''),
        (case returned (getFiscalYearData rt (field cols ''obligations'') ''obligations'') of
           None \<Rightarrow> None
         | Some f \<Rightarrow> Some (JNum (foldl (plusParsed rt) 0 (map snd (entriesOf f)))))]"



text \<open>A name cell that the loop over the rows can test: a text, or a falsy value (an empty
  or missing cell). The row is skipped when the cell is falsy or blank.\<close>

fun textOrFalsy :: "json option \<Rightarrow> bool" where
  "textOrFalsy None = True"
| "textOrFalsy (Some (JStr s)) = True"
| "textOrFalsy (Some v) = (\<not> truthy v)"

fun blankName :: "json option \<Rightarrow> bool" where
  "blankName None = True"
| "blankName (Some (JStr s)) = (trim s = [])"
| "blankName (Some v) = (\<not> truthy v)"

fun isNumber :: "json \<Rightarrow> bool" where
  "isNumber (JNum n) = True"
| "isNumber v = False"

text \<open>
  The container test of the validator as the code makes it, and the disagreement of shape
  as the specification words it: a container declared a list that is not a list, or
  declared a map that is not a map.
\<close>

definition containerRejected :: "schema \<Rightarrow> json option \<Rightarrow> bool" where
  "containerRejected s c =
     (c \<noteq> None
      \<and> ((categoryValueType s = Some ''array'' \<and> \<not> isArray c)
         \<or> (categoryValueType s = Some ''object_map''
             \<and> (isArray c \<or> typeofJs c \<noteq> ''object''))))"

fun isObjectMap :: "json \<Rightarrow> bool" where
  "isObjectMap (JObj kvs) = True"
| "isObjectMap v = False"

definition shapeDisagrees :: "string option \<Rightarrow> json \<Rightarrow> bool" where
  "shapeDisagrees kind c =
     ((kind = Some ''array'' \<and> \<not> isArray (Some c))
      \<or> (kind = Some ''object_map'' \<and> \<not> isObjectMap c))"

text \<open>
  The shape of an element of the list of categories: the four fields of the object
  literal, in its order, the fiscal years never \<^verbatim>\<open>undefined\<close>.
\<close>

definition categoryShape :: "jsobject \<Rightarrow> bool" where
  "categoryShape c =
     (map fst c = [''name'', ''value'', ''percentage'', ''fiscalYears'']
      \<and> (case map_of c ''fiscalYears'' of Some (Some v) \<Rightarrow> True | _ \<Rightarrow> False))"

text \<open>The elements that the two callbacks build from an item and from an entry that are
  not \<^verbatim>\<open>null\<close>.\<close>

definition itemCategory :: "schema \<Rightarrow> json \<Rightarrow> jsobject" where
  "itemCategory s item =
     [(''name'', member item (propKey (arrayItemKeyField s))),
      (''value'', member item (propKey (arrayItemValueField s))),
      (''percentage'', member item ''percentage_of_total''),
      (''fiscalYears'', Some (orElse (member item ''fiscal_year_breakdown'') (JObj [])))]"

definition entryValue :: "json \<Rightarrow> json option" where
  "entryValue d =
     (case member d ''total_obligations'' of None \<Rightarrow> member d ''total'' | Some x \<Rightarrow> Some x)"

definition entryCategory :: "string \<times> json \<Rightarrow> jsobject" where
  "entryCategory entry =
     [(''name'', Some (JStr (fst entry))),
      (''value'', entryValue (snd entry)),
      (''percentage'', member (snd entry) ''percentage_of_total''),
      (''fiscalYears'', Some (orElse (member (snd entry) ''fiscal_years'') (JObj [])))]"

text \<open>A truthy container over which the extraction does not raise: for a schema declared
  an array, an array without a \<^verbatim>\<open>null\<close> item; otherwise, a value without a \<^verbatim>\<open>null\<close> entry.\<close>

definition containerFits :: "schema \<Rightarrow> json \<Rightarrow> bool" where
  "containerFits s c =
     (if categoryValueType s = Some ''array''
        then (case c of JArr items \<Rightarrow> list_all (\<lambda>item. item \<noteq> JNull) items | _ \<Rightarrow> False)
      else list_all (\<lambda>entry. snd entry \<noteq> JNull) (entriesOf c))"

text \<open>The value of an entry as the specification words it: the field that the schema names
  in \<^verbatim>\<open>itemValueField\<close>, \<^verbatim>\<open>total\<close> when it names none.\<close>

definition specEntryValue :: "schema \<Rightarrow> json \<Rightarrow> json option" where
  "specEntryValue s d =
     member d (case itemValueField s of None \<Rightarrow> ''total'' | Some f \<Rightarrow> f)"

text \<open>
  The aggregate of the fiscal years as the specification words it. The years and amounts
  that a category entry contributes are those of its \<^verbatim>\<open>fiscal_years\<close>, when it has one; the
  total of a year is the sum of the amounts contributed for it, in the order of the
  entries.
\<close>

definition contributions :: "json \<Rightarrow> (string \<times> json) list" where
  "contributions d =
     (case member d ''fiscal_years'' of
        None \<Rightarrow> []
      | Some f \<Rightarrow> if truthy f then entriesOf f else [])"

definition allContributions :: "(string \<times> json) list \<Rightarrow> (string \<times> json) list" where
  "allContributions entries = concat (map (\<lambda>entry. contributions (snd entry)) entries)"

definition yearSum :: "(string \<times> json) list \<Rightarrow> string \<Rightarrow> real" where
  "yearSum ps y = sum_list (map (\<lambda>p. toNumber (snd p)) (filter (\<lambda>p. fst p = y) ps))"

text \<open>A category entry that the aggregation can add up: it is not \<^verbatim>\<open>null\<close>, and its
  \<^verbatim>\<open>fiscal_years\<close>, when present and truthy, is a mapping from years, none of which is the
  name of an inherited member, to numbers.\<close>

fun yearMapping :: "json \<Rightarrow> bool" where
  "yearMapping (JObj fy) =
     list_all (\<lambda>p. isNumber (snd p) \<and> fst p \<notin> set inheritedNames) fy"
| "yearMapping v = (\<not> truthy v)"

definition summableEntry :: "json \<Rightarrow> bool" where
  "summableEntry d =
     (d \<noteq> JNull \<and> (case member d ''fiscal_years'' of None \<Rightarrow> True | Some f \<Rightarrow> yearMapping f))"

text \<open>A mapping all of whose amounts are numbers, and the amount it holds for a year
  (0 when it holds none).\<close>

definition numeric :: "(string \<times> json) list \<Rightarrow> bool" where
  "numeric ps = list_all (\<lambda>p. isNumber (snd p)) ps"

definition amount :: "(string \<times> json) list \<Rightarrow> string \<Rightarrow> real" where
  "amount acc y = (case map_of acc y of None \<Rightarrow> 0 | Some v \<Rightarrow> toNumber v)"

section \<open>Data for the examples\<close>

text \<open>
  A fragment of the runtime for the examples: \<^verbatim>\<open>JSON.parse\<close> knows the four well-formed
  texts of the examples and raises on every other text (the examples give it no other
  well-formed one); the examples convert no number or array to text and parse no text as a
  number. The last text parses to an obligations value whose only fiscal year holds an
  object with a member \<^verbatim>\<open>toString\<close>, which has no text.
\<close>

definition obligationsText :: string where
  \<open>obligationsText = ''{"total_obligated": 0, "fiscal_year_obligations": {"2022": 5}}''\<close>

definition obligationsValue :: json where
  "obligationsValue =
     JObj [(''total_obligated'', JNum 0), (''fiscal_year_obligations'', JObj [(''2022'', JNum 5)])]"

definition unprintableText :: string where
  \<open>unprintableText = ''{"fiscal_year_obligations": {"2024": {"toString": 1}}}''\<close>

definition unprintableYears :: json where
  "unprintableYears =
     JObj [(''fiscal_year_obligations'', JObj [(''2024'', JObj [(''toString'', JNum 1)])])]"

definition sampleParse :: "string \<Rightarrow> string + json" where
  "sampleParse s =
     (if s = obligationsText then Inr obligationsValue
      else if s = ''[1, 2]'' then Inr (JArr [JNum 1, JNum 2])
      else if s = ''{}'' then Inr (JObj [])
      else if s = unprintableText then Inr unprintableYears
      else Inl ''Unexpected token'')"

fun sampleText :: "json \<Rightarrow> string" where
  "sampleText JNull = ''null''"
| "sampleText (JBool b) = (if b then ''true'' else ''false'')"
| "sampleText v = ''[object Object]''"

definition sampleRuntime :: runtime where
  "sampleRuntime = \<lparr>JSON_parse = sampleParse, toText = sampleText, parseFloatText = (\<lambda>s. None)\<rparr>"

text \<open>A cache loaded earlier, and a row source whose agency sheet holds only its header
  row and whose other sheets fail to be read.\<close>

definition cachedAgency :: entity where
  "cachedAgency = \<lparr>entityId = ''agency_1'', entityName = ''GSA'', entityType = ''agency'',
                    rowIndex = 1, columns = [], totalObligations = JNum 0, tier = JNull,
                    hasAIProducts = False\<rparr>"

definition cachedBefore :: cache where
  "cachedBefore = \<lparr>agencies = Some [cachedAgency], oems = Some [], vendors = Some [],
                    lastUpdated = Some 1000, isLoading = False\<rparr>"

definition failingSource :: spreadsheet where
  "failingSource sheet =
     (if sheet = ''Agency'' then Some (Inr [[JStr ''Code'', JStr ''Name'']])
      else Some (Inl SourceError))"

text \<open>An agency sheet with its header row and one row, whose obligations cell holds a
  total of 0 beside a fiscal year of 5.\<close>

definition sampleSheet :: spreadsheet where
  "sampleSheet sheet =
     (if sheet = ''Agency''
        then Some (Inr [[JStr ''Code'', JStr ''Name'', JStr ''Department'', JStr ''Obligations''],
                        [JStr ''047'', JStr ''GSA'', JStr ''General Services'', JStr obligationsText]])
      else None)"

text \<open>The entity that the row of \<open>sampleSheet\<close> loads into.\<close>

definition loadedAgency :: entity where
  "loadedAgency =
     \<lparr>entityId = ''agency_1'', entityName = ''GSA'', entityType = ''agency'', rowIndex = 1,
      columns =
        [(''agencyCode'', Some (JStr ''047'')),
         (''parentCompany'', Some (JStr ''General Services'')),
         (''obligations'', Some obligationsValue),
         (''smallBusiness'', Some JNull), (''sumTier'', Some JNull),
         (''sumType'', Some JNull), (''contractVehicle'', Some JNull),
         (''fundingDepartment'', Some JNull), (''discount'', Some JNull),
         (''topRefPiid'', Some JNull), (''topPiid'', Some JNull),
         (''activeContracts'', Some JNull), (''discountOfferings'', Some JNull),
         (''aiProduct'', Some JNull), (''aiCategory'', Some JNull),
         (''topBicProducts'', Some JNull), (''reseller'', Some JNull),
         (''bicReseller'', Some JNull), (''bicOem'', Some JNull),
         (''fasOem'', Some JNull), (''fundingAgency'', Some JNull),
         (''bicTopProductsPerAgency'', Some JNull), (''oneGovTier'', Some JNull),
         (''fasDataTable'', None), (''fasTimestamp'', None),
         (''bicDataTable'', None), (''bicTimestamp'', None)],
      totalObligations = JNum 5, tier = JNull, hasAIProducts = False\<rparr>"

text \<open>A small-business value with every required field, whose categories container is
  \<^verbatim>\<open>null\<close>; and a top-PIID value with every required field, whose container is \<^verbatim>\<open>null\<close>.\<close>

definition nullMapContainer :: json where
  "nullMapContainer =
     JObj [(''source_file'', JStr ''fas.json''),
           (''summary'', JObj [(''total_all_obligations'', JNum 1)]),
           (''business_size_summaries'', JNull),
           (''processed_date'', JStr ''2025-01-01'')]"

definition nullArrayContainer :: json where
  "nullArrayContainer =
     JObj [(''source_file'', JStr ''fas.json''),
           (''total_obligations'', JNum 1),
           (''unique_piids'', JNum 0),
           (''fiscal_years_covered'', JArr []),
           (''yearly_totals'', JObj []),
           (''top_10_piids'', JNull),
           (''processed_date'', JStr ''2025-01-01'')]"

text \<open>A row whose obligations cell (column D, index 3) holds a JSON array.\<close>

definition arrayCellRow :: "json list" where
  "arrayCellRow = [JStr ''047'', JStr ''GSA'', JStr '''', JStr ''[1, 2]'']"

text \<open>Values for the extraction of categories: the two tiers of the specification's
  example; a container with a \<^verbatim>\<open>null\<close> entry; a map where a list is declared; an entry with
  both \<^verbatim>\<open>total_obligations\<close> and \<^verbatim>\<open>total\<close>; an OEM entry with \<^verbatim>\<open>total\<close> only.\<close>

definition tierValue :: json where
  "tierValue =
     JObj [(''summary'', JObj [(''total_all_obligations'', JNum 300)]),
           (''tier_summaries'',
            JObj [(''A'', JObj [(''total'', JNum 200), (''fiscal_years'', JObj [(''2024'', JNum 200)])]),
                  (''B'', JObj [(''total'', JNum 100), (''fiscal_years'', JObj [(''2024'', JNum 100)])])])]"

definition nullEntryValue :: json where
  "nullEntryValue = JObj [(''business_size_summaries'', JObj [(''SMALL BUSINESS'', JNull)])]"

definition mapForListValue :: json where
  "mapForListValue = JObj [(''top_10_piids'', JObj [(''GS00F'', JNum 1)])]"

definition bothTotalsEntry :: json where
  "bothTotalsEntry = JObj [(''total_obligations'', JNum 5), (''total'', JNum 7)]"

definition bothTotalsValue :: json where
  "bothTotalsValue = JObj [(''business_size_summaries'', JObj [(''SMALL BUSINESS'', bothTotalsEntry)])]"

definition totalOnlyEntry :: json where
  "totalOnlyEntry = JObj [(''total'', JNum 7)]"

definition totalOnlyValue :: json where
  "totalOnlyValue = JObj [(''top_10_oem_summaries'', JObj [(''ACME'', totalOnlyEntry)])]"



text \<open>
  The property names that the code reads with a fixed key, and the names that the
  registry supplies as paths and field names.
\<close>

definition fixedNames :: "string list" where
  "fixedNames =
     [''percentage_of_total'', ''fiscal_year_breakdown'', ''total_obligations'', ''total'',
      ''fiscal_years'', ''obligations'', ''total_price'', ''total_sales'', ''total_obligated'',
      ''summary'', ''fiscal_year_obligations'', ''mode_tier'', ''tier'']"

definition pathNames :: "string option \<Rightarrow> string list" where
  "pathNames p = (case p of None \<Rightarrow> [] | Some q \<Rightarrow> splitDot q)"

definition schemaNames :: "schema \<Rightarrow> string list" where
  "schemaNames s =
     pathNames (primaryValuePath s) @ pathNames (timeSeriesPath s) @ pathNames (categoriesPath s)
     @ concat (map splitDot (requiredFields s))
     @ pathNames (arrayItemKeyField s) @ pathNames (arrayItemValueField s)"

definition registryNames :: "string list" where
  "registryNames = concat (map (\<lambda>entry. schemaNames (snd entry)) COLUMN_SCHEMAS)"

section \<open>Properties of the path resolver\<close>


lemma reduceStep_undefined [simp]: "reduceStep None k = Inr None"
  by (simp add: reduceStep_def)

lemma reduceStep_object [simp]: "reduceStep (Some (JObj kvs)) k = Inr (map_of kvs k)"
  by (simp add: reduceStep_def)

lemma reduceStep_null [simp]: "reduceStep (Some JNull) k = Inr None"
  by (simp add: reduceStep_def)

lemma reduceStep_bool [simp]: "reduceStep (Some (JBool b)) k = Inr None"
  by (simp add: reduceStep_def)

lemma reduceStep_num [simp]: "reduceStep (Some (JNum n)) k = Inr None"
  by (simp add: reduceStep_def)

lemma reduceStep_returns: "\<exists>c. reduceStep cur k = Inr c"
proof (cases cur)
  case None
  then show ?thesis by simp
next
  case (Some v)
  then show ?thesis by (cases v) (auto simp: reduceStep_def)
qed

lemma reduceE_undefined [simp]: "reduceE reduceStep None ks = Inr None"
  by (induction ks) auto

lemma reduceE_never_raises: "\<exists>r. reduceE reduceStep cur ks = Inr r"
proof (induction ks arbitrary: cur)
  case Nil
  show ?case by simp
next
  case (Cons k ks)
  obtain c where "reduceStep cur k = Inr c"
    using reduceStep_returns by blast
  with Cons.IH [of c] show ?case by simp
qed



lemma getNestedValue_returns: "\<exists>r. getNestedValue obj path = Inr r"
  using reduceE_never_raises by (simp add: getNestedValue_def)





section \<open>The names that the code reads\<close>

text \<open>
  None of the names that the code reads with a fixed key, and none that the registry
  supplies as a path or a field name, is the name of an inherited member: on all of them
  the model of a property read is exact.
\<close>

lemma fixed_names_own:
  "list_all (\<lambda>k. k \<notin> set (inheritedNames @ sequenceMethodNames)) fixedNames"
  by code_simp

lemma registry_names_own:
  "list_all (\<lambda>k. k \<notin> set (inheritedNames @ sequenceMethodNames)) registryNames"
  by code_simp

section \<open>Properties of the cache\<close>

lemma needsRefresh_iff:
  "lastUpdated c \<noteq> Some 0 \<Longrightarrow>
   needsRefresh now c \<longleftrightarrow>
     (lastUpdated c = None \<or> agencies c = None \<or> oems c = None \<or> vendors c = None
      \<or> (\<exists>t. lastUpdated c = Some t \<and> now - t > TTL))"
  by (auto simp: needsRefresh_def split: option.splits)

lemma needsRefresh_empty: "needsRefresh now emptyCache"
  by (simp add: needsRefresh_def emptyCache_def)

lemma loadAllData_fresh:
  assumes "agencies c = Some a" "oems c = Some b" "vendors c = Some d"
    and "lastUpdated c = Some t" "t \<noteq> 0" "now - t \<le> TTL"
  shows "loadAllData rt openById now later c False = \<lparr>state = c, reads = [], result = Inr c\<rparr>"
  using assms by (simp add: loadAllData_def needsRefresh_def)

lemma getEntities_fresh:
  assumes "agencies c = Some a" "oems c = Some b" "vendors c = Some d"
    and "lastUpdated c = Some t" "t \<noteq> 0" "now - t \<le> TTL"
  shows "getEntities rt openById now later c etype False
           = \<lparr>state = c, reads = [], result = selectEntities c etype\<rparr>"
  by (simp add: getEntities_def loadAllData_fresh [OF assms])

lemma failingSource_agency:
  "loadEntitySheet rt failingSource ''agency'' = Inr []"
  by (simp add: loadEntitySheet_def columnMappings_def failingSource_def)

lemma failingSource_oem:
  "loadEntitySheet rt failingSource ''oem'' = Inl SourceError"
  by (simp add: loadEntitySheet_def columnMappings_def failingSource_def)

lemma failing_load:
  "loadAllData rt (Inr failingSource) 500000 500001 cachedBefore False
     = \<lparr>state = cachedBefore\<lparr>agencies := Some [], isLoading := False\<rparr>,
        reads = [''openById'', ''agency'', ''oem''], result = Inl SourceError\<rparr>"
  by (simp add: loadAllData_def needsRefresh_def TTL_def cachedBefore_def
      failingSource_agency failingSource_oem)

text \<open>
  C3, as stated, says that after a failed load the three lists are the ones cached before.
  The lists are assigned one by one as each sheet is loaded, and the handler only clears
  the loading flag: when the agency sheet loads and the OEM sheet fails, the agencies
  cached before are gone.
\<close>

theorem loadAllData_partial_counterexample:
  "result (loadAllData sampleRuntime (Inr failingSource) 500000 500001 cachedBefore False)
     = Inl SourceError
   \<and> agencies (state (loadAllData sampleRuntime (Inr failingSource) 500000 500001 cachedBefore False))
       = Some []
   \<and> agencies cachedBefore = Some [cachedAgency]"
  by (simp add: failing_load) (simp add: cachedBefore_def)

text \<open>
  C3, amended: when a load fails, the error raised by the row source or by the load of a
  sheet is the error of the call; the loading flag is cleared; the time stamp and the
  vendors are the ones from before; the agencies and the OEMs are the ones from before,
  except that the lists of the sheets loaded before the failing one (agency before OEM
  before vendor) are the freshly loaded ones. A list that was cached is still a list.
\<close>

theorem loadAllData_failure:
  assumes "result (loadAllData rt openById now later c force) = Inl e"
  shows "isLoading (state (loadAllData rt openById now later c force)) = False
     \<and> lastUpdated (state (loadAllData rt openById now later c force)) = lastUpdated c
     \<and> vendors (state (loadAllData rt openById now later c force)) = vendors c
     \<and> ((openById = Inl e
           \<and> agencies (state (loadAllData rt openById now later c force)) = agencies c
           \<and> oems (state (loadAllData rt openById now later c force)) = oems c)
        \<or> (\<exists>ss. openById = Inr ss \<and> loadEntitySheet rt ss ''agency'' = Inl e
           \<and> agencies (state (loadAllData rt openById now later c force)) = agencies c
           \<and> oems (state (loadAllData rt openById now later c force)) = oems c)
        \<or> (\<exists>ss a. openById = Inr ss \<and> loadEntitySheet rt ss ''agency'' = Inr a
           \<and> loadEntitySheet rt ss ''oem'' = Inl e
           \<and> agencies (state (loadAllData rt openById now later c force)) = Some a
           \<and> oems (state (loadAllData rt openById now later c force)) = oems c)
        \<or> (\<exists>ss a b. openById = Inr ss \<and> loadEntitySheet rt ss ''agency'' = Inr a
           \<and> loadEntitySheet rt ss ''oem'' = Inr b
           \<and> loadEntitySheet rt ss ''vendor'' = Inl e
           \<and> agencies (state (loadAllData rt openById now later c force)) = Some a
           \<and> oems (state (loadAllData rt openById now later c force)) = Some b))
     \<and> (agencies c \<noteq> None \<longrightarrow>
          agencies (state (loadAllData rt openById now later c force)) \<noteq> None)
     \<and> (oems c \<noteq> None \<longrightarrow>
          oems (state (loadAllData rt openById now later c force)) \<noteq> None)"
  using assms
  by (auto simp: loadAllData_def split: if_splits sum.splits)

theorem loadAllData_failure_witness:
  "result (loadAllData sampleRuntime (Inr failingSource) 500000 500001 cachedBefore False)
     = Inl SourceError
   \<and> isLoading (state (loadAllData sampleRuntime (Inr failingSource) 500000 500001 cachedBefore False))
       = False
   \<and> lastUpdated (state (loadAllData sampleRuntime (Inr failingSource) 500000 500001 cachedBefore False))
       = Some 1000
   \<and> vendors (state (loadAllData sampleRuntime (Inr failingSource) 500000 500001 cachedBefore False))
       = Some []"
proof -
  have failed:
    "result (loadAllData sampleRuntime (Inr failingSource) 500000 500001 cachedBefore False)
       = Inl SourceError"
    by (simp add: failing_load)
  have before: "lastUpdated cachedBefore = Some 1000" "vendors cachedBefore = Some []"
    by (simp_all add: cachedBefore_def)
  from loadAllData_failure [OF failed] failed before show ?thesis
    by simp
qed

text \<open>
  C9: a cache that holds the three lists and a time stamp at most \<open>TTL\<close> (two minutes) old
  answers \<^verbatim>\<open>getEntities\<close> without a forced refresh from the cached lists: the state is
  unchanged, the row source is not read, and the result is the cached list of the type
  asked for (all three, one after the other, when no known type is given). The cache is
  stale exactly when the time stamp is unset, a list is missing or the age exceeds \<open>TTL\<close>.
  A time stamp that is set is a value of \<^verbatim>\<open>Date.now()\<close>, hence not 0.
\<close>

theorem getEntities_within_TTL:
  assumes "agencies c = Some a" and "oems c = Some b" and "vendors c = Some d"
    and "lastUpdated c = Some t" and "0 < t" and "now - t \<le> TTL"
  shows "getEntities rt openById now later c etype False
           = \<lparr>state = c, reads = [], result = selectEntities c etype\<rparr>
     \<and> TTL = 120000
     \<and> (map_option toLowerCase etype = Some ''agency'' \<longrightarrow> selectEntities c etype = Inr (Some a))
     \<and> (map_option toLowerCase etype = Some ''oem'' \<longrightarrow> selectEntities c etype = Inr (Some b))
     \<and> (map_option toLowerCase etype = Some ''vendor'' \<longrightarrow> selectEntities c etype = Inr (Some d))
     \<and> (map_option toLowerCase etype \<noteq> Some ''agency'' \<longrightarrow>
        map_option toLowerCase etype \<noteq> Some ''oem'' \<longrightarrow>
        map_option toLowerCase etype \<noteq> Some ''vendor'' \<longrightarrow>
        selectEntities c etype = Inr (Some (a @ b @ d)))
     \<and> (\<forall>now' c'. lastUpdated c' \<noteq> Some 0 \<longrightarrow>
          (needsRefresh now' c' \<longleftrightarrow>
             (lastUpdated c' = None \<or> agencies c' = None \<or> oems c' = None \<or> vendors c' = None
              \<or> (\<exists>t'. lastUpdated c' = Some t' \<and> now' - t' > TTL))))"
proof -
  from assms have "t \<noteq> 0" by simp
  with assms have "getEntities rt openById now later c etype False
           = \<lparr>state = c, reads = [], result = selectEntities c etype\<rparr>"
    by (intro getEntities_fresh)
  moreover have "TTL = 120000"
    by (simp add: TTL_def)
  moreover from assms have
    "map_option toLowerCase etype = Some ''agency'' \<longrightarrow> selectEntities c etype = Inr (Some a)"
    "map_option toLowerCase etype = Some ''oem'' \<longrightarrow> selectEntities c etype = Inr (Some b)"
    "map_option toLowerCase etype = Some ''vendor'' \<longrightarrow> selectEntities c etype = Inr (Some d)"
    "map_option toLowerCase etype \<noteq> Some ''agency'' \<longrightarrow>
        map_option toLowerCase etype \<noteq> Some ''oem'' \<longrightarrow>
        map_option toLowerCase etype \<noteq> Some ''vendor'' \<longrightarrow>
        selectEntities c etype = Inr (Some (a @ b @ d))"
    by (simp_all add: selectEntities_def del: map_option_eq_Some)
  ultimately show ?thesis
    using needsRefresh_iff by blast
qed

theorem getEntities_within_TTL_witness:
  "agencies cachedBefore = Some [cachedAgency] \<and> oems cachedBefore = Some []
   \<and> vendors cachedBefore = Some [] \<and> lastUpdated cachedBefore = Some 1000
   \<and> (0 :: int) < 1000 \<and> (100000 :: int) - 1000 \<le> TTL
   \<and> getEntities sampleRuntime (Inl SourceError) 100000 100001 cachedBefore (Some ''Agency'') False
       = \<lparr>state = cachedBefore, reads = [], result = Inr (Some [cachedAgency])\<rparr>"
proof -
  have held: "agencies cachedBefore = Some [cachedAgency]" "oems cachedBefore = Some []"
    "vendors cachedBefore = Some []" "lastUpdated cachedBefore = Some 1000"
    by (simp_all add: cachedBefore_def)
  have age: "(0 :: int) < 1000" "(100000 :: int) - 1000 \<le> TTL"
    by (simp_all add: TTL_def)
  have lower: "map_option toLowerCase (Some ''Agency'') = Some ''agency''"
    by (simp add: toLowerCase_def lowerChar_def)
  from getEntities_within_TTL [OF held age, of sampleRuntime "Inl SourceError" 100001 "Some ''Agency''"]
    lower held age show ?thesis
    by simp
qed

section \<open>Properties of the entity loader\<close>

lemma parseJSON_returns: "\<exists>d. parseJSON rt cell = Inr d"
  by (auto simp: parseJSON_def split: option.splits sum.splits)

lemma parseColumn_returns: "\<exists>r. parseColumn rt row entry = Inr r"
  using parseJSON_returns [of rt "cellAt row (snd entry)"]
  by (cases entry) (auto simp: parseColumn_def bindE_def)

lemma mapE_returns:
  assumes "\<And>x. \<exists>y. f x = Inr y"
  shows "\<exists>ys. mapE f xs = Inr ys \<and> length ys = length xs"
proof (induction xs)
  case Nil
  show ?case by simp
next
  case (Cons x xs)
  from assms obtain y where "f x = Inr y" by blast
  with Cons show ?case by auto
qed

lemma mapE_parseColumn_field:
  "mapE (parseColumn rt row) cols = Inr cs \<Longrightarrow> map_of cols key = Some n \<Longrightarrow> isJsonColumn key
   \<Longrightarrow> \<exists>d. parseJSON rt (cellAt row n) = Inr d \<and> field cs key = Some d"
proof (induction cols arbitrary: cs)
  case Nil
  then show ?case by simp
next
  case (Cons c cols)
  obtain k m where c: "c = (k, m)" by (cases c)
  from Cons.prems(1) obtain r rs where r: "parseColumn rt row c = Inr r"
    and rs: "mapE (parseColumn rt row) cols = Inr rs" and cs: "cs = r # rs"
    by (auto split: sum.splits)
  show ?case
  proof (cases "k = key")
    case True
    with Cons.prems c have "m = n" by simp
    with r c True Cons.prems(3) cs show ?thesis
      by (auto simp: parseColumn_def bindE_def field_def split: sum.splits)
  next
    case False
    with Cons.prems c have "map_of cols key = Some n" by simp
    from Cons.IH [OF rs this Cons.prems(3)] obtain d
      where d: "parseJSON rt (cellAt row n) = Inr d" "field rs key = Some d" by blast
    from r c False have "fst r \<noteq> key"
      by (auto simp: parseColumn_def bindE_def split: sum.splits if_splits)
    with d cs show ?thesis
      by (cases r) (auto simp: field_def)
  qed
qed

lemma obligations_column:
  "map_of columnMappings etype = Some config \<Longrightarrow>
   map_of (filter (\<lambda>e. fst e \<noteq> ''name'') (columnsOf config)) ''obligations'' = Some 4"
  by (auto simp: columnMappings_def sharedColumns_def split: if_splits)

lemma loadRows_member:
  "loadRows rt etype config i rows = Inr es \<Longrightarrow> e \<in> set es \<Longrightarrow>
   \<exists>j < length rows. loadRow rt etype config (i + j) (rows ! j) = Inr (Some e)"
proof (induction rows arbitrary: i es)
  case Nil
  then show ?case by simp
next
  case (Cons row rows)
  from Cons.prems(1) obtain r rest where r: "loadRow rt etype config i row = Inr r"
    and rest: "loadRows rt etype config (Suc i) rows = Inr rest"
    and es: "es = (case r of None \<Rightarrow> rest | Some en \<Rightarrow> en # rest)"
    by (auto split: sum.splits)
  show ?case
  proof (cases "r = Some e")
    case True
    with r show ?thesis by (intro exI [of _ 0]) simp
  next
    case False
    with es Cons.prems(2) have "e \<in> set rest" by (auto split: option.splits)
    from Cons.IH [OF rest this] obtain j where "j < length rows"
      "loadRow rt etype config (Suc i + j) (rows ! j) = Inr (Some e)" by blast
    then show ?thesis by (intro exI [of _ "Suc j"]) simp
  qed
qed

lemma loadRow_entity:
  assumes "loadRow rt etype config i row = Inr (Some e)"
  shows "rowIndex e = i
     \<and> mapE (parseColumn rt row) (filter (\<lambda>c. fst c \<noteq> ''name'') (columnsOf config)) = Inr (columns e)
     \<and> (case field (columns e) ''obligations'' of
          None \<Rightarrow> Inr (JNum 0) | Some ob \<Rightarrow> extractTotalObligations rt ob)
         = Inr (totalObligations e)"
  using assms
  by (auto simp: loadRow_def bindE_def split: sum.splits if_splits)

lemma isJsonColumn_obligations: "isJsonColumn ''obligations''"
  by (simp add: isJsonColumn_def)

lemma loaded_obligations:
  assumes "loadEntitySheet rt ss etype = Inr es" and "e \<in> set es"
  shows "\<exists>ob config vals.
           map_of columnMappings etype = Some config
         \<and> ss (sheetName config) = Some (Inr vals)
         \<and> rowIndex e < length vals
         \<and> parseJSON rt (cellAt (vals ! rowIndex e) 4) = Inr ob
         \<and> field (columns e) ''obligations'' = Some ob
         \<and> extractTotalObligations rt ob = Inr (totalObligations e)"
proof -
  from assms obtain config where config: "map_of columnMappings etype = Some config"
    by (auto simp: loadEntitySheet_def split: option.splits)
  from assms config obtain vals where vals: "ss (sheetName config) = Some (Inr vals)"
    and rows: "loadRows rt etype config 1 (drop 1 vals) = Inr es"
    by (auto simp: loadEntitySheet_def split: option.splits sum.splits)
  from loadRows_member [OF rows assms(2)] obtain j where j: "j < length (drop 1 vals)"
    and row: "loadRow rt etype config (1 + j) (drop 1 vals ! j) = Inr (Some e)"
    by blast
  from j have at: "drop 1 vals ! j = vals ! (1 + j)" and len: "1 + j < length vals"
    by simp_all
  from loadRow_entity [OF row] have idx: "rowIndex e = 1 + j"
    and cols: "mapE (parseColumn rt (drop 1 vals ! j))
                 (filter (\<lambda>c. fst c \<noteq> ''name'') (columnsOf config)) = Inr (columns e)"
    and tot: "(case field (columns e) ''obligations'' of
                 None \<Rightarrow> Inr (JNum 0) | Some ob \<Rightarrow> extractTotalObligations rt ob)
              = Inr (totalObligations e)"
    by simp_all
  from mapE_parseColumn_field [OF cols obligations_column [OF config] isJsonColumn_obligations]
  obtain ob where ob: "parseJSON rt (cellAt (drop 1 vals ! j) 4) = Inr ob"
    "field (columns e) ''obligations'' = Some ob"
    by blast
  with tot have "extractTotalObligations rt ob = Inr (totalObligations e)" by simp
  with config vals ob idx at len show ?thesis
    by (intro exI [of _ ob] exI [of _ config] exI [of _ vals]) simp
qed

lemma sum_of_numbers:
  "list_all isNumber vs \<Longrightarrow> foldl (plusParsed rt) x vs = x + sum_list (map toNumber vs)"
proof (induction vs arbitrary: x)
  case Nil
  show ?case by simp
next
  case (Cons v vs)
  then obtain n where "v = JNum n" by (cases v) simp_all
  with Cons show ?case by (simp add: plusParsed_def)
qed

lemma addParsed_returns:
  "addParsed rt x v = Inr y \<Longrightarrow> y = plusParsed rt x v"
  by (auto simp: addParsed_def plusParsed_def bindE_def split: sum.splits option.splits)

lemma reduceE_addParsed:
  "reduceE (addParsed rt) x vs = Inr tot \<Longrightarrow> tot = foldl (plusParsed rt) x vs"
proof (induction vs arbitrary: x)
  case Nil
  then show ?case by simp
next
  case (Cons v vs)
  then obtain y where y: "addParsed rt x v = Inr y" and rest: "reduceE (addParsed rt) y vs = Inr tot"
    by (auto split: sum.splits)
  from addParsed_returns [OF y] Cons.IH [OF rest] show ?case by simp
qed

lemma orElse_truthy: "truthyOpt a \<Longrightarrow> orElse a d = orElse a d'"
  by (cases a) simp_all

lemma orElse_falsy: "\<not> truthyOpt a \<Longrightarrow> orElse a d = d"
  by (cases a) simp_all

lemma extractTotalObligations_falsy:
  "\<not> truthy ob \<Longrightarrow> extractTotalObligations rt ob = Inr (JNum 0)"
  by (simp add: extractTotalObligations_def)

lemma extractTotalObligations_truthy:
  assumes "extractTotalObligations rt ob = Inr t" and "truthy ob"
  shows "t = orElse (member ob ''total_obligated'')
               (orElse (optChain (member ob ''summary'') ''total_obligations'')
                  (case member ob ''fiscal_year_obligations'' of
                     None \<Rightarrow> JNum 0
                   | Some f \<Rightarrow>
                       if truthy f then JNum (foldl (plusParsed rt) 0 (map snd (entriesOf f)))
                       else JNum 0))"
proof (cases "truthyOpt (member ob ''total_obligated'')")
  case True
  with assms have "t = orElse (member ob ''total_obligated'') (JNum 0)"
    by (simp add: extractTotalObligations_def)
  with orElse_truthy [OF True] show ?thesis by simp
next
  case first: False
  show ?thesis
  proof (cases "truthyOpt (optChain (member ob ''summary'') ''total_obligations'')")
    case True
    with assms first
    have "t = orElse (optChain (member ob ''summary'') ''total_obligations'') (JNum 0)"
      by (simp add: extractTotalObligations_def)
    with orElse_truthy [OF True] orElse_falsy [OF first] show ?thesis by simp
  next
    case second: False
    from assms first second
    have "t = (case member ob ''fiscal_year_obligations'' of
                 None \<Rightarrow> JNum 0
               | Some f \<Rightarrow>
                   if truthy f then JNum (foldl (plusParsed rt) 0 (map snd (entriesOf f)))
                   else JNum 0)"
      using reduceE_addParsed [of rt 0 _ _]
      by (auto simp: extractTotalObligations_def bindE_def split: option.splits sum.splits)
    with orElse_falsy [OF first] orElse_falsy [OF second] show ?thesis by simp
  qed
qed

lemma sample_load: "loadEntitySheet sampleRuntime sampleSheet ''agency'' = Inr [loadedAgency]"
  by (simp add: loadEntitySheet_def columnMappings_def sharedColumns_def sampleSheet_def
      loadRow_def nameCell_def cellAt_def nthOpt_def bindE_def trim_def isSpace_def
      parseColumn_def isJsonColumn_def parseJSON_def parseJSON_try_def sampleRuntime_def
      sampleParse_def obligationsText_def unprintableText_def obligationsValue_def
      field_def
      extractTotalObligations_def addParsed_def showNat.simps digitChar_def
      extractTier_def checkAIProducts_def loadedAgency_def)


lemma sample_spec_total:
  "specTotalObligations sampleRuntime (columns loadedAgency) = Some (JNum 0)"
  by (simp add: specTotalObligations_def loadedAgency_def field_def obligationsValue_def
      getPrimaryValue_def COLUMN_SCHEMAS_def obligationsSchema_def getNestedValue_def)

text \<open>
  C4, as stated, makes \<^verbatim>\<open>totalObligations\<close> the first value that is present. In the row of
  \<open>sampleSheet\<close> the primary value of the obligations column is present and is 0; the code
  tests it for truthiness, passes over it and returns the sum of the fiscal years, 5.
\<close>

theorem totalObligations_zero_counterexample:
  "loadEntitySheet sampleRuntime sampleSheet ''agency'' = Inr [loadedAgency]
   \<and> totalObligations loadedAgency = JNum 5
   \<and> specTotalObligations sampleRuntime (columns loadedAgency) = Some (JNum 0)"
  by (simp add: sample_load sample_spec_total) (simp add: loadedAgency_def)

text \<open>
  C4, amended: for every loaded entity row, \<^verbatim>\<open>totalObligations\<close> is what
  \<^verbatim>\<open>extractTotalObligations\<close> returns for the parsed obligations cell alone (column 4 of the
  row; the tier column is not read): it is 0 when the parsed cell is falsy; otherwise it is
  the first truthy one (present and neither 0 nor empty) of \<^verbatim>\<open>total_obligated\<close> and
  \<^verbatim>\<open>summary.total_obligations\<close>; otherwise, when \<^verbatim>\<open>fiscal_year_obligations\<close> is truthy, the sum
  over its vals of \<^verbatim>\<open>parseFloat(val) || 0\<close> (the sum of the vals when they are numbers);
  otherwise 0. The sum that the code returns is that sum whenever it returns one.
\<close>

theorem totalObligations_precedence:
  assumes "loadEntitySheet rt ss etype = Inr es" and "e \<in> set es"
  shows "\<exists>ob config vals.
           map_of columnMappings etype = Some config
         \<and> ss (sheetName config) = Some (Inr vals)
         \<and> rowIndex e < length vals
         \<and> parseJSON rt (cellAt (vals ! rowIndex e) 4) = Inr ob
         \<and> extractTotalObligations rt ob = Inr (totalObligations e)
         \<and> (\<not> truthy ob \<longrightarrow> totalObligations e = JNum 0)
         \<and> (truthy ob \<longrightarrow>
              totalObligations e =
                orElse (member ob ''total_obligated'')
                  (orElse (optChain (member ob ''summary'') ''total_obligations'')
                     (case member ob ''fiscal_year_obligations'' of
                        None \<Rightarrow> JNum 0
                      | Some f \<Rightarrow>
                          if truthy f then JNum (foldl (plusParsed rt) 0 (map snd (entriesOf f)))
                          else JNum 0)))
         \<and> (\<forall>f. list_all isNumber (map snd (entriesOf f)) \<longrightarrow>
                foldl (plusParsed rt) 0 (map snd (entriesOf f))
                  = sum_list (map toNumber (map snd (entriesOf f))))
         \<and> (\<forall>vs tot. reduceE (addParsed rt) 0 vs = Inr tot \<longrightarrow>
                tot = foldl (plusParsed rt) 0 vs)"
proof -
  from loaded_obligations [OF assms] obtain ob config vals where facts:
    "map_of columnMappings etype = Some config" "ss (sheetName config) = Some (Inr vals)"
    "rowIndex e < length vals" "parseJSON rt (cellAt (vals ! rowIndex e) 4) = Inr ob"
    "extractTotalObligations rt ob = Inr (totalObligations e)"
    by blast
  from facts(5) have falsy: "\<not> truthy ob \<longrightarrow> totalObligations e = JNum 0"
    by (auto simp: extractTotalObligations_falsy)
  from extractTotalObligations_truthy [OF facts(5)]
  have chain: "truthy ob \<longrightarrow>
              totalObligations e =
                orElse (member ob ''total_obligated'')
                  (orElse (optChain (member ob ''summary'') ''total_obligations'')
                     (case member ob ''fiscal_year_obligations'' of
                        None \<Rightarrow> JNum 0
                      | Some f \<Rightarrow>
                          if truthy f then JNum (foldl (plusParsed rt) 0 (map snd (entriesOf f)))
                          else JNum 0))"
    by blast
  have sums: "\<forall>vs tot. reduceE (addParsed rt) 0 vs = Inr tot \<longrightarrow>
                tot = foldl (plusParsed rt) 0 vs"
    using reduceE_addParsed by blast
  from facts falsy chain sums show ?thesis
    by (intro exI [of _ ob] exI [of _ config] exI [of _ vals]) (simp add: sum_of_numbers)
qed

theorem totalObligations_precedence_witness:
  "loadEntitySheet sampleRuntime sampleSheet ''agency'' = Inr [loadedAgency]
   \<and> loadedAgency \<in> set [loadedAgency]
   \<and> (\<exists>ob. parseJSON sampleRuntime (Some (JStr obligationsText)) = Inr ob \<and> truthy ob
        \<and> extractTotalObligations sampleRuntime ob = Inr (totalObligations loadedAgency)
        \<and> totalObligations loadedAgency =
            orElse (member ob ''total_obligated'')
              (orElse (optChain (member ob ''summary'') ''total_obligations'')
                 (case member ob ''fiscal_year_obligations'' of
                    None \<Rightarrow> JNum 0
                  | Some f \<Rightarrow>
                      if truthy f
                        then JNum (foldl (plusParsed sampleRuntime) 0 (map snd (entriesOf f)))
                      else JNum 0)))"
proof -
  have mem: "loadedAgency \<in> set [loadedAgency]" by simp
  have parsed: "parseJSON sampleRuntime (Some (JStr obligationsText)) = Inr obligationsValue"
    by (simp add: parseJSON_def parseJSON_try_def bindE_def sampleRuntime_def sampleParse_def
        obligationsText_def trim_def isSpace_def)
  have cell: "cellAt (v ! rowIndex loadedAgency) 4 = Some (JStr obligationsText)"
    if "sampleSheet ''Agency'' = Some (Inr v)" for v
    using that by (auto simp: sampleSheet_def loadedAgency_def cellAt_def nthOpt_def)
  from totalObligations_precedence [OF sample_load mem] obtain ob config vals where
    config: "map_of columnMappings ''agency'' = Some config"
    and vals: "sampleSheet (sheetName config) = Some (Inr vals)"
    and ob: "parseJSON sampleRuntime (cellAt (vals ! rowIndex loadedAgency) 4) = Inr ob"
    and ret: "extractTotalObligations sampleRuntime ob = Inr (totalObligations loadedAgency)"
    and tot: "truthy ob \<longrightarrow>
              totalObligations loadedAgency =
                orElse (member ob ''total_obligated'')
                  (orElse (optChain (member ob ''summary'') ''total_obligations'')
                     (case member ob ''fiscal_year_obligations'' of
                        None \<Rightarrow> JNum 0
                      | Some f \<Rightarrow>
                          if truthy f
                            then JNum (foldl (plusParsed sampleRuntime) 0 (map snd (entriesOf f)))
                          else JNum 0))"
    by blast
  from config have "sheetName config = ''Agency''"
    by (auto simp: columnMappings_def)
  with vals cell have "cellAt (vals ! rowIndex loadedAgency) 4 = Some (JStr obligationsText)"
    by simp
  with ob parsed have "ob = obligationsValue" by simp
  moreover have "truthy obligationsValue" by (simp add: obligationsValue_def)
  ultimately show ?thesis
    using sample_load mem parsed tot ret by auto
qed
section \<open>Properties of the cell parser\<close>

lemma trim_Nil [simp]: "trim [] = []"
  by (simp add: trim_def)

lemma trim_no_break_space: "trim (CHR 0xA0 # ''{} '') = ''{}''"
  by (simp add: trim_def isSpace_def)

lemma no_break_space_blank: "blankName (Some (JStr [CHR 0xA0, CHR 0x09]))"
  by (simp add: trim_def isSpace_def)

lemma parseAndValidateJson_returns: "\<exists>r. parseAndValidateJson rt cell = Inr r"
  by (auto simp: parseAndValidateJson_def split: option.splits json.splits sum.splits)












section \<open>Properties of the loop over the rows\<close>























lemma no_break_space_parsed:
  "parseAndValidateJson sampleRuntime (Some (JStr (CHR 0xA0 # ''{} '')))
     = Inr \<lparr>parsedValid = True, parsedData = JObj [], parseError = None\<rparr>"
  by (simp add: parseAndValidateJson_def trim_no_break_space)
    (simp add: sampleRuntime_def sampleParse_def obligationsText_def unprintableText_def)




section \<open>Properties of the validator\<close>

lemma distinct_index_keys: "distinct (map fst COLUMN_INDEX_MAP)"
  by (simp add: COLUMN_INDEX_MAP_def)

lemma schema_lookup:
  "map_of COLUMN_SCHEMAS k =
     (if k = ''obligations'' then Some obligationsSchema
      else if k = ''smallBusiness'' then Some smallBusinessSchema
      else if k = ''sumTier'' then Some sumTierSchema
      else if k = ''sumType'' then Some sumTypeSchema
      else if k = ''contractVehicle'' then Some contractVehicleSchema
      else if k = ''fundingDepartment'' then Some fundingDepartmentSchema
      else if k = ''oneGovDiscountedProducts'' then Some oneGovDiscountedProductsSchema
      else if k = ''topRefPiid'' then Some topRefPiidSchema
      else if k = ''topPiid'' then Some topPiidSchema
      else if k = ''activeContracts'' then Some activeContractsSchema
      else if k = ''expiringDiscountedProducts'' then Some expiringDiscountedProductsSchema
      else if k = ''aiProduct'' then Some aiProductSchema
      else if k = ''aiCategory'' then Some aiCategorySchema
      else if k = ''topBicProducts'' then Some topBicProductsSchema
      else if k = ''reseller'' then Some resellerSchema
      else if k = ''bicReseller'' then Some bicResellerSchema
      else if k = ''bicOem'' then Some bicOemSchema
      else if k = ''fasOem'' then Some fasOemSchema
      else if k = ''fundingAgency'' then Some fundingAgencySchema
      else if k = ''bicTopProductsPerAgency'' then Some bicTopProductsPerAgencySchema
      else if k = ''oneGovTier'' then Some oneGovTierSchema
      else if k = ''usaiProfile'' then Some usaiProfileSchema
      else None)"
  unfolding COLUMN_SCHEMAS_def by (simp only: map_of.simps fst_conv snd_conv fun_upd_apply)

lemma index_map_schemas:
  "list_all (\<lambda>e. map_of COLUMN_SCHEMAS (snd e) \<noteq> None) COLUMN_INDEX_MAP"
  by (simp add: COLUMN_INDEX_MAP_def schema_lookup)

lemma columnCheck_key:
  "columnCheck rt row (k, sk) = Inr (Some r) \<Longrightarrow> fst r = k"
  by (auto simp: columnCheck_def bindE_def split: if_splits option.splits sum.splits)

lemma mapE_lookup:
  assumes "mapE f xs = Inr rs" and "distinct (map fst xs)"
    and "\<And>x r. f x = Inr (Some r) \<Longrightarrow> fst r = fst x"
    and "(k, a) \<in> set xs" and "f (k, a) = Inr (Some (k, v))"
  shows "map_of (map the (filter (\<lambda>r. r \<noteq> None) rs)) k = Some v"
  using assms(1,2,4)
proof (induction xs arbitrary: rs)
  case Nil
  then show ?case by simp
next
  case (Cons x xs)
  from Cons.prems(1) obtain y ys where y: "f x = Inr y" and ys: "mapE f xs = Inr ys"
    and rs: "rs = y # ys"
    by (auto split: sum.splits)
  show ?case
  proof (cases "x = (k, a)")
    case True
    with y assms(5) have "y = Some (k, v)" by simp
    with rs show ?thesis by simp
  next
    case False
    with Cons.prems have mem: "(k, a) \<in> set xs" and neq: "fst x \<noteq> k" and d: "distinct (map fst xs)"
      by (auto simp: rev_image_eqI)
    from Cons.IH [OF ys d mem] have ih: "map_of (map the (filter (\<lambda>r. r \<noteq> None) ys)) k = Some v" .
    show ?thesis
    proof (cases y)
      case None
      with rs ih show ?thesis by simp
    next
      case (Some r)
      with y assms(3) [of x r] neq have "fst r \<noteq> k" by simp
      with Some rs ih show ?thesis by (cases r) simp
    qed
  qed
qed

lemma requireField_returns:
  "\<exists>r'. requireField jd r f = Inr r'
        \<and> (isValid r' \<longleftrightarrow> isValid r \<and> getNestedValue jd f \<noteq> Inr None)"
  using getNestedValue_returns [of jd f]
  by (auto simp: requireField_def bindE_def)

lemma requireField_fold:
  "\<exists>r'. reduceE (requireField jd) r fs = Inr r'
        \<and> (isValid r' \<longleftrightarrow> isValid r \<and> list_all (\<lambda>f. getNestedValue jd f \<noteq> Inr None) fs)"
proof (induction fs arbitrary: r)
  case Nil
  show ?case by simp
next
  case (Cons f fs)
  obtain r1 where r1: "requireField jd r f = Inr r1"
    "isValid r1 \<longleftrightarrow> isValid r \<and> getNestedValue jd f \<noteq> Inr None"
    using requireField_returns by blast
  from Cons [of r1] obtain r' where "reduceE (requireField jd) r1 fs = Inr r'"
    "isValid r' \<longleftrightarrow> isValid r1 \<and> list_all (\<lambda>f. getNestedValue jd f \<noteq> Inr None) fs"
    by blast
  with r1 show ?case by auto
qed

lemma checkPrimaryValue_returns:
  "\<exists>r'. checkPrimaryValue s jd r = Inr r' \<and> isValid r' = isValid r"
  using getNestedValue_returns [of jd "propKey (primaryValuePath s)"]
  by (auto simp: checkPrimaryValue_def bindE_def)

lemma checkCategories_returns:
  "\<exists>r'. checkCategories s jd r = Inr r'
        \<and> (isValid r' \<longleftrightarrow> isValid r
              \<and> \<not> (truthyStr (categoriesPath s)
                    \<and> containerRejected s (returned (getNestedValue jd (propKey (categoriesPath s))))))"
  using getNestedValue_returns [of jd "propKey (categoriesPath s)"]
  by (auto simp: checkCategories_def bindE_def containerRejected_def)

lemma validateJsonStructure_returns: "\<exists>r. validateJsonStructure jd key = Inr r"
proof (cases "map_of COLUMN_SCHEMAS key")
  case None
  then show ?thesis by (simp add: validateJsonStructure_def)
next
  case (Some s)
  obtain r1 where r1: "reduceE (requireField jd)
      \<lparr>isValid = True, errors = [], warnings = []\<rparr> (requiredFields s) = Inr r1"
    using requireField_fold by blast
  obtain r2 where r2: "checkPrimaryValue s jd r1 = Inr r2"
    using checkPrimaryValue_returns by blast
  obtain r3 where r3: "checkCategories s jd r2 = Inr r3"
    using checkCategories_returns by blast
  from Some r1 r2 r3 show ?thesis
    by (simp add: validateJsonStructure_def bindE_def)
qed

lemma validateJsonStructure_valid_iff:
  assumes "map_of COLUMN_SCHEMAS key = Some s" and "truthy v" and "typeofJs (Some v) = ''object''"
  shows "\<exists>r. validateJsonStructure (Some v) key = Inr r
     \<and> (isValid r \<longleftrightarrow>
          list_all (\<lambda>f. getNestedValue (Some v) f \<noteq> Inr None) (requiredFields s)
          \<and> \<not> (truthyStr (categoriesPath s)
                \<and> containerRejected s
                     (returned (getNestedValue (Some v) (propKey (categoriesPath s))))))"
proof -
  obtain r1 where r1: "reduceE (requireField (Some v))
      \<lparr>isValid = True, errors = [], warnings = []\<rparr> (requiredFields s) = Inr r1"
    "isValid r1 \<longleftrightarrow> list_all (\<lambda>f. getNestedValue (Some v) f \<noteq> Inr None) (requiredFields s)"
    using requireField_fold [of "Some v" "\<lparr>isValid = True, errors = [], warnings = []\<rparr>"]
    by auto
  obtain r2 where r2: "checkPrimaryValue s (Some v) r1 = Inr r2" "isValid r2 = isValid r1"
    using checkPrimaryValue_returns by blast
  obtain r3 where r3: "checkCategories s (Some v) r2 = Inr r3"
    "isValid r3 \<longleftrightarrow> isValid r2
       \<and> \<not> (truthyStr (categoriesPath s)
             \<and> containerRejected s
                  (returned (getNestedValue (Some v) (propKey (categoriesPath s)))))"
    using checkCategories_returns by blast
  from assms r1 r2 r3 show ?thesis
    by (simp add: validateJsonStructure_def bindE_def)
qed

lemma columnCheck_skips: "\<not> isNaNKey k \<Longrightarrow> columnCheck rt row (k, sk) = Inr None"
  by (simp add: columnCheck_def)

lemma columnCheck_returns:
  assumes "map_of COLUMN_SCHEMAS sk = Some s" and "textOrFalsy (nthOpt row (columnIndex s))"
  shows "\<exists>r. columnCheck rt row (k, sk) = Inr r"
proof (cases "nthOpt row (columnIndex s)")
  case None
  with assms show ?thesis by (simp add: columnCheck_def bindE_def)
next
  case (Some c)
  obtain p where p: "parseAndValidateJson rt (Some c) = Inr p"
    using parseAndValidateJson_returns by blast
  obtain v where v: "validateJsonStructure (Some (parsedData p)) sk = Inr v"
    using validateJsonStructure_returns by blast
  from assms Some p v show ?thesis
    by (cases c) (simp_all add: columnCheck_def bindE_def)
qed

lemma columnCheck_no_brace:
  assumes "isNaNKey k" and "map_of COLUMN_SCHEMAS sk = Some s"
    and "nthOpt row (columnIndex s) = Some (JStr t)" and "trim t \<noteq> []"
    and "\<not> startsWithBrace (trim t)"
  shows "columnCheck rt row (k, sk)
           = Inr (Some (k, ParseErrorCell (Some ''String does not start with {'') sk))"
proof -
  from assms(4) have "t \<noteq> []" by auto
  with assms show ?thesis
    by (simp add: columnCheck_def bindE_def parseAndValidateJson_def)
qed

lemma columnCheck_blank:
  assumes "isNaNKey k" and "map_of COLUMN_SCHEMAS sk = Some s"
    and "blankName (nthOpt row (columnIndex s))"
  shows "columnCheck rt row (k, sk) = Inr (Some (k, EmptyCell sk))"
proof (cases "nthOpt row (columnIndex s)")
  case None
  with assms show ?thesis by (simp add: columnCheck_def bindE_def)
next
  case (Some c)
  with assms show ?thesis
    by (cases c) (simp_all add: columnCheck_def bindE_def)
qed

lemma columnCheck_no_text:
  assumes "isNaNKey k" and "map_of COLUMN_SCHEMAS sk = Some s"
    and "\<not> textOrFalsy (nthOpt row (columnIndex s))"
  shows "columnCheck rt row (k, sk) = Inl TypeError"
proof (cases "nthOpt row (columnIndex s)")
  case None
  with assms show ?thesis by simp
next
  case (Some c)
  with assms show ?thesis
    by (cases c) (simp_all add: columnCheck_def bindE_def)
qed

lemma trimCall_error: "trimCall c = Inl e \<Longrightarrow> e = TypeError"
  by (cases c rule: trimCall.cases) simp_all

lemma columnCheck_error:
  assumes "columnCheck rt row x = Inl e"
  shows "e = TypeError"
proof -
  obtain k sk where x: "x = (k, sk)" by (cases x)
  show ?thesis
  proof (cases "map_of COLUMN_SCHEMAS sk")
    case None
    with assms x show ?thesis
      by (simp add: columnCheck_def split: if_splits)
  next
    case (Some s)
    obtain p where p: "parseAndValidateJson rt (nthOpt row (columnIndex s)) = Inr p"
      using parseAndValidateJson_returns by blast
    obtain v where v: "validateJsonStructure (Some (parsedData p)) sk = Inr v"
      using validateJsonStructure_returns by blast
    from assms x Some p v show ?thesis
      using trimCall_error [of "nthOpt row (columnIndex s)" e]
      by (auto simp: columnCheck_def bindE_def split: if_splits sum.splits)
  qed
qed

lemma mapE_raises:
  assumes "x \<in> set xs" and "f x = Inl e" and "\<And>y e'. f y = Inl e' \<Longrightarrow> e' = e"
  shows "mapE f xs = Inl e"
  using assms(1,2)
proof (induction xs)
  case Nil
  then show ?case by simp
next
  case (Cons y ys)
  show ?case
  proof (cases "f y")
    case (Inl e')
    with assms(3) [of y e'] show ?thesis by simp
  next
    case (Inr r)
    with Cons have rest: "mapE f ys = Inl e" by auto
    with Inr show ?thesis by simp
  qed
qed

lemma nthOpt_textOrFalsy:
  "list_all (\<lambda>c. textOrFalsy (Some c)) row \<Longrightarrow> textOrFalsy (nthOpt row i)"
  by (simp add: nthOpt_def list_all_length)

lemma mapE_returns_set:
  assumes "\<And>x. x \<in> set xs \<Longrightarrow> \<exists>y. f x = Inr y"
  shows "\<exists>ys. mapE f xs = Inr ys"
  using assms
proof (induction xs)
  case Nil
  show ?case by simp
next
  case (Cons x xs)
  then obtain y where "f x = Inr y" by force
  moreover from Cons obtain ys where "mapE f xs = Inr ys" by force
  ultimately show ?case by simp
qed

lemma validateRowJsonColumns_returns:
  assumes "list_all (\<lambda>c. textOrFalsy (Some c)) row"
  shows "\<exists>rs. validateRowJsonColumns rt row = Inr rs"
proof -
  have "\<exists>r. columnCheck rt row e = Inr r" if "e \<in> set COLUMN_INDEX_MAP" for e
  proof -
    obtain k sk where e: "e = (k, sk)" by (cases e)
    from that index_map_schemas obtain s where "map_of COLUMN_SCHEMAS (snd e) = Some s"
      by (auto simp: list_all_iff)
    with e show ?thesis
      using columnCheck_returns [of sk s row rt k] nthOpt_textOrFalsy [OF assms] by simp
  qed
  then obtain ys where "mapE (columnCheck rt row) COLUMN_INDEX_MAP = Inr ys"
    using mapE_returns_set [of COLUMN_INDEX_MAP "columnCheck rt row"] by blast
  then show ?thesis by (simp add: validateRowJsonColumns_def bindE_def)
qed

lemma validateRowJsonColumns_no_brace:
  assumes "validateRowJsonColumns rt row = Inr rs" and "(k, sk) \<in> set COLUMN_INDEX_MAP"
    and "isNaNKey k" and "map_of COLUMN_SCHEMAS sk = Some s"
    and "nthOpt row (columnIndex s) = Some (JStr t)" and "trim t \<noteq> []"
    and "\<not> startsWithBrace (trim t)"
  shows "map_of rs k = Some (ParseErrorCell (Some ''String does not start with {'') sk)"
proof -
  from assms(1) obtain ys where ys: "mapE (columnCheck rt row) COLUMN_INDEX_MAP = Inr ys"
    and rs: "rs = map the (filter (\<lambda>r. r \<noteq> None) ys)"
    by (auto simp: validateRowJsonColumns_def bindE_def split: sum.splits)
  have key: "fst r = fst x" if "columnCheck rt row x = Inr (Some r)" for x r
    using that columnCheck_key [of rt row "fst x" "snd x" r] by simp
  from mapE_lookup [OF ys distinct_index_keys key assms(2)
      columnCheck_no_brace [OF assms(3-7)]] rs
  show ?thesis by simp
qed

lemma validateRowJsonColumns_blank:
  assumes "validateRowJsonColumns rt row = Inr rs" and "(k, sk) \<in> set COLUMN_INDEX_MAP"
    and "isNaNKey k" and "map_of COLUMN_SCHEMAS sk = Some s"
    and "blankName (nthOpt row (columnIndex s))"
  shows "map_of rs k = Some (EmptyCell sk)"
proof -
  from assms(1) obtain ys where ys: "mapE (columnCheck rt row) COLUMN_INDEX_MAP = Inr ys"
    and rs: "rs = map the (filter (\<lambda>r. r \<noteq> None) ys)"
    by (auto simp: validateRowJsonColumns_def bindE_def split: sum.splits)
  have key: "fst r = fst x" if "columnCheck rt row x = Inr (Some r)" for x r
    using that columnCheck_key [of rt row "fst x" "snd x" r] by simp
  from mapE_lookup [OF ys distinct_index_keys key assms(2)
      columnCheck_blank [OF assms(3-5)]] rs
  show ?thesis by simp
qed

lemma validateRowJsonColumns_no_text:
  assumes "(k, sk) \<in> set COLUMN_INDEX_MAP"
    and "isNaNKey k" and "map_of COLUMN_SCHEMAS sk = Some s"
    and "\<not> textOrFalsy (nthOpt row (columnIndex s))"
  shows "validateRowJsonColumns rt row = Inl TypeError"
proof -
  have "mapE (columnCheck rt row) COLUMN_INDEX_MAP = Inl TypeError"
    using assms(1) columnCheck_no_text [OF assms(2-4)] columnCheck_error
    by (rule mapE_raises)
  then show ?thesis by (simp add: validateRowJsonColumns_def bindE_def)
qed

lemma null_map_container:
  "validateJsonStructure (Some nullMapContainer) ''smallBusiness''
     = Inr \<lparr>isValid = True, errors = [], warnings = []\<rparr>"
  by (simp add: validateJsonStructure_def schema_lookup smallBusinessSchema_def
      nullMapContainer_def requireField_def checkPrimaryValue_def checkCategories_def
      getNestedValue_def reduceStep_def bindE_def)

lemma null_array_container:
  "validateJsonStructure (Some nullArrayContainer) ''topPiid''
     = Inr \<lparr>isValid = False,
            errors = [''Expected array at '' @ [CHR 0x27] @ ''top_10_piids'' @ [CHR 0x27]
                        @ '', got object''],
            warnings = []\<rparr>"
  by (simp add: validateJsonStructure_def schema_lookup topPiidSchema_def
      nullArrayContainer_def requireField_def checkPrimaryValue_def checkCategories_def
      getNestedValue_def reduceStep_def bindE_def)

text \<open>
  C2 at the input where the code departs from it: a small-business value (declared an
  object map) with every required field present and the container \<^verbatim>\<open>null\<close>. The container
  is not a map, so its shape disagrees with the declared kind, and yet the validator
  answers \<^verbatim>\<open>isValid = true\<close> with no error and no warning: \<^verbatim>\<open>typeof null\<close> is \<^verbatim>\<open>'object'\<close>. The
  branch for a declared array does reject a \<^verbatim>\<open>null\<close> container, as the top-PIID value shows.
\<close>

theorem validateJsonStructure_null_container:
  "validateJsonStructure (Some nullMapContainer) ''smallBusiness''
     = Inr \<lparr>isValid = True, errors = [], warnings = []\<rparr>
   \<and> list_all (\<lambda>f. getNestedValue (Some nullMapContainer) f \<noteq> Inr None)
         (requiredFields smallBusinessSchema)
   \<and> getNestedValue (Some nullMapContainer) ''business_size_summaries'' = Inr (Some JNull)
   \<and> shapeDisagrees (categoryValueType smallBusinessSchema) JNull
   \<and> validateJsonStructure (Some nullArrayContainer) ''topPiid''
     = Inr \<lparr>isValid = False,
            errors = [''Expected array at '' @ [CHR 0x27] @ ''top_10_piids'' @ [CHR 0x27]
                        @ '', got object''],
            warnings = []\<rparr>"
  by (simp add: null_map_container null_array_container)
    (simp add: smallBusinessSchema_def nullMapContainer_def getNestedValue_def reduceStep_def
      shapeDisagrees_def)

theorem validateJsonStructure_null_container_witness:
  "map_sum id isValid (validateJsonStructure (Some nullMapContainer) ''smallBusiness'') = Inr True
   \<and> map_sum id isValid (validateJsonStructure (Some nullArrayContainer) ''topPiid'') = Inr False"
  using validateJsonStructure_null_container by simp

text \<open>
  C10: \<^verbatim>\<open>parseAndValidateJson\<close> answers every text whose trimmed content does not begin with
  \<^verbatim>\<open>{\<close>, and every input that is not a text, with \<^verbatim>\<open>isValid = false\<close> and \<^verbatim>\<open>data = null\<close>,
  whatever \<^verbatim>\<open>JSON.parse\<close> would make of it; and \<^verbatim>\<open>validateRowJsonColumns\<close>, which returns a
  report for every row of texts and empty cells, reports such a cell, when it is not blank,
  as a parse error under the letter of its column. It reports a cell that is missing, falsy
  or blank as empty, and it raises a TypeError when the cell of a column is truthy and not a
  text.
\<close>

theorem parseAndValidateJson_requires_brace:
  "(\<not> startsWithBrace (trim t) \<longrightarrow>
      (\<exists>r. parseAndValidateJson rt (Some (JStr t)) = Inr r \<and> \<not> parsedValid r \<and> parsedData r = JNull))
   \<and> ((\<forall>u. cell \<noteq> Some (JStr u)) \<longrightarrow>
      (\<exists>r. parseAndValidateJson rt cell = Inr r \<and> \<not> parsedValid r \<and> parsedData r = JNull))
   \<and> (list_all (\<lambda>c. textOrFalsy (Some c)) row \<longrightarrow> (\<exists>rs. validateRowJsonColumns rt row = Inr rs))
   \<and> (validateRowJsonColumns rt row = Inr rs \<longrightarrow> (k, sk) \<in> set COLUMN_INDEX_MAP \<longrightarrow>
      isNaNKey k \<longrightarrow> map_of COLUMN_SCHEMAS sk = Some s \<longrightarrow>
      nthOpt row (columnIndex s) = Some (JStr t) \<longrightarrow> trim t \<noteq> [] \<longrightarrow>
      \<not> startsWithBrace (trim t) \<longrightarrow>
      map_of rs k = Some (ParseErrorCell (Some ''String does not start with {'') sk)
      \<and> map_option status (map_of rs k) = Some ''parse_error'')
   \<and> (validateRowJsonColumns rt row = Inr rs \<longrightarrow> (k, sk) \<in> set COLUMN_INDEX_MAP \<longrightarrow>
      isNaNKey k \<longrightarrow> map_of COLUMN_SCHEMAS sk = Some s \<longrightarrow>
      blankName (nthOpt row (columnIndex s)) \<longrightarrow>
      map_of rs k = Some (EmptyCell sk))
   \<and> ((k, sk) \<in> set COLUMN_INDEX_MAP \<longrightarrow> isNaNKey k \<longrightarrow> map_of COLUMN_SCHEMAS sk = Some s \<longrightarrow>
      \<not> textOrFalsy (nthOpt row (columnIndex s)) \<longrightarrow>
      validateRowJsonColumns rt row = Inl TypeError)"
proof -
  have "\<exists>r. parseAndValidateJson rt (Some (JStr t)) = Inr r \<and> \<not> parsedValid r \<and> parsedData r = JNull"
    if "\<not> startsWithBrace (trim t)"
    using that by (simp add: parseAndValidateJson_def)
  moreover have "\<exists>r. parseAndValidateJson rt cell = Inr r \<and> \<not> parsedValid r \<and> parsedData r = JNull"
    if "\<forall>u. cell \<noteq> Some (JStr u)"
    using that by (auto simp: parseAndValidateJson_def split: option.splits json.splits)
  ultimately show ?thesis
    using validateRowJsonColumns_returns [of row rt]
      validateRowJsonColumns_no_brace [of rt row rs k sk s t]
      validateRowJsonColumns_blank [of rt row rs k sk s]
      validateRowJsonColumns_no_text [of k sk s row rt]
    by auto
qed

theorem parseAndValidateJson_requires_brace_witness:
  "JSON_parse sampleRuntime (trim ''[1, 2]'') = Inr (JArr [JNum 1, JNum 2])
   \<and> \<not> startsWithBrace (trim ''[1, 2]'')
   \<and> (\<exists>r. parseAndValidateJson sampleRuntime (Some (JStr ''[1, 2]'')) = Inr r
          \<and> \<not> parsedValid r \<and> parsedData r = JNull)
   \<and> list_all (\<lambda>c. textOrFalsy (Some c)) arrayCellRow
   \<and> (\<exists>rs. validateRowJsonColumns sampleRuntime arrayCellRow = Inr rs
          \<and> map_of rs ''D'' = Some (ParseErrorCell (Some ''String does not start with {'') ''obligations''))"
proof -
  have trimmed: "trim ''[1, 2]'' = ''[1, 2]''"
    by (simp add: trim_def isSpace_def)
  have decodable: "JSON_parse sampleRuntime (trim ''[1, 2]'') = Inr (JArr [JNum 1, JNum 2])"
    by (simp add: trimmed sampleRuntime_def sampleParse_def obligationsText_def
        unprintableText_def)
  have texts: "list_all (\<lambda>c. textOrFalsy (Some c)) arrayCellRow"
    by (simp add: arrayCellRow_def)
  have column: "(''D'', ''obligations'') \<in> set COLUMN_INDEX_MAP" "isNaNKey ''D''"
    "map_of COLUMN_SCHEMAS ''obligations'' = Some obligationsSchema"
    "nthOpt arrayCellRow (columnIndex obligationsSchema) = Some (JStr ''[1, 2]'')"
    by (simp_all add: COLUMN_INDEX_MAP_def isNaNKey_def isDigit_def schema_lookup
        obligationsSchema_def arrayCellRow_def nthOpt_def)
  note claim = parseAndValidateJson_requires_brace
      [where rt = sampleRuntime and t = "''[1, 2]''" and row = arrayCellRow and k = "''D''"
         and sk = "''obligations''" and s = obligationsSchema]
  from claim texts obtain rs where rs: "validateRowJsonColumns sampleRuntime arrayCellRow = Inr rs"
    by blast
  from claim [where rs = rs] rs column trimmed
  have "map_of rs ''D'' = Some (ParseErrorCell (Some ''String does not start with {'') ''obligations'')"
    by simp
  with claim rs decodable trimmed texts show ?thesis
    by auto
qed

section \<open>Properties of the cell parser in the load of a sheet\<close>



section \<open>Properties of the extraction of categories\<close>

lemma arrayItem_eq:
  "arrayItem s item = (if item = JNull then Inl TypeError else Inr (itemCategory s item))"
  by (cases item) (simp_all add: arrayItem_def itemCategory_def bindE_def)

lemma mapEntry_eq:
  "mapEntry entry = (if snd entry = JNull then Inl TypeError else Inr (entryCategory entry))"
  by (cases entry; cases "snd entry")
    (auto simp: mapEntry_def entryCategory_def entryValue_def bindE_def split: option.splits)

lemma mapE_if:
  assumes "\<And>x. f x = (if bad x then Inl e else Inr (g x))"
  shows "mapE f xs = (if list_ex bad xs then Inl e else Inr (map g xs))"
  by (induction xs) (simp_all add: assms)

lemma categoryShape_item: "categoryShape (itemCategory s item)"
  by (simp add: categoryShape_def itemCategory_def)

lemma categoryShape_entry: "categoryShape (entryCategory entry)"
  by (simp add: categoryShape_def entryCategory_def)

lemma getCategories_container:
  assumes "map_of COLUMN_SCHEMAS key = Some s" and "categoriesPath s = Some p"
    and "getNestedValue jsonData p = Inr (Some c)" and "truthy c"
  shows "getCategories jsonData key =
     (if categoryValueType s = Some ''array''
        then (case c of
                JArr items \<Rightarrow> if list_ex (\<lambda>item. item = JNull) items then Inl TypeError
                              else Inr (map (itemCategory s) items)
              | _ \<Rightarrow> Inl TypeError)
      else if list_ex (\<lambda>entry. snd entry = JNull) (entriesOf c) then Inl TypeError
      else Inr (map entryCategory (entriesOf c)))"
proof -
  from assms(2,3) have p: "p \<noteq> []"
    by (auto simp: getNestedValue_def)
  have items: "mapE (arrayItem s) items =
      (if list_ex (\<lambda>item. item = JNull) items then Inl TypeError
       else Inr (map (itemCategory s) items))" for items
    by (rule mapE_if) (rule arrayItem_eq)
  have entries: "mapE mapEntry es =
      (if list_ex (\<lambda>entry. snd entry = JNull) es then Inl TypeError
       else Inr (map entryCategory es))" for es
    by (rule mapE_if) (rule mapEntry_eq)
  from assms p show ?thesis
    by (cases c) (simp_all add: getCategories_def bindE_def items entries)
qed

lemma getCategories_empty:
  assumes "map_of COLUMN_SCHEMAS key = Some s" and "categoriesPath s = Some p"
    and "\<not> truthyOpt (returned (getNestedValue jsonData p))"
  shows "getCategories jsonData key = Inr []"
proof -
  obtain r where r: "getNestedValue jsonData p = Inr r"
    using getNestedValue_returns by blast
  with assms show ?thesis
    by (cases r) (simp_all add: getCategories_def bindE_def)
qed

lemma getCategories_cases:
  "getCategories jsonData key = Inr []
   \<or> (\<exists>s p c. map_of COLUMN_SCHEMAS key = Some s \<and> categoriesPath s = Some p
          \<and> getNestedValue jsonData p = Inr (Some c) \<and> truthy c)"
proof (cases "map_of COLUMN_SCHEMAS key")
  case None
  then show ?thesis by (simp add: getCategories_def)
next
  case (Some s)
  show ?thesis
  proof (cases "categoriesPath s")
    case None
    with Some show ?thesis by (simp add: getCategories_def)
  next
    case path: (Some p)
    obtain r where r: "getNestedValue jsonData p = Inr r"
      using getNestedValue_returns by blast
    show ?thesis
    proof (cases "truthyOpt r")
      case True
      then obtain c where "r = Some c" "truthy c" by (cases r) simp_all
      with Some path r show ?thesis by blast
    next
      case False
      with Some path r getCategories_empty [of key s p jsonData] show ?thesis by simp
    qed
  qed
qed

lemma getCategories_shape:
  "getCategories jsonData key = Inr cats \<Longrightarrow> list_all categoryShape cats"
  using getCategories_cases [of jsonData key]
proof (elim disjE exE conjE)
  assume "getCategories jsonData key = Inr cats" "getCategories jsonData key = Inr []"
  then show ?thesis by simp
next
  fix s p c
  assume "getCategories jsonData key = Inr cats" "map_of COLUMN_SCHEMAS key = Some s"
    "categoriesPath s = Some p" "getNestedValue jsonData p = Inr (Some c)" "truthy c"
  then show ?thesis
    using getCategories_container [of key s p jsonData c]
    by (auto simp: list_all_iff categoryShape_item categoryShape_entry
        split: if_splits json.splits)
qed

lemma getCategories_error:
  "getCategories jsonData key = Inl e \<Longrightarrow> e = TypeError"
  using getCategories_cases [of jsonData key]
proof (elim disjE exE conjE)
  assume "getCategories jsonData key = Inl e" "getCategories jsonData key = Inr []"
  then show ?thesis by simp
next
  fix s p c
  assume "getCategories jsonData key = Inl e" "map_of COLUMN_SCHEMAS key = Some s"
    "categoriesPath s = Some p" "getNestedValue jsonData p = Inr (Some c)" "truthy c"
  then show ?thesis
    using getCategories_container [of key s p jsonData c]
    by (auto split: if_splits json.splits)
qed

lemma getCategories_fits:
  assumes "map_of COLUMN_SCHEMAS key = Some s" and "categoriesPath s = Some p"
    and "getNestedValue jsonData p = Inr (Some c)" and "truthy c"
  shows "(\<exists>cats. getCategories jsonData key = Inr cats \<and> length cats = length (entriesOf c))
         \<longleftrightarrow> containerFits s c"
  using getCategories_container [OF assms]
  by (cases c) (auto simp: containerFits_def list_all_iff list_ex_iff split: if_splits)

lemma orElse_case:
  "orElse fy d = (case fy of None \<Rightarrow> d | Some f \<Rightarrow> if truthy f then f else d)"
  by (cases fy) simp_all

lemma getCategories_exact:
  assumes "map_of COLUMN_SCHEMAS key = Some s" and "categoriesPath s = Some p"
    and "getNestedValue jsonData p = Inr (Some c)" and "truthy c"
  shows "getCategories jsonData key =
     (if \<not> containerFits s c then Inl TypeError
      else if categoryValueType s = Some ''array'' then
        Inr (map (\<lambda>item.
                   [(''name'', member item (propKey (arrayItemKeyField s))),
                    (''value'', member item (propKey (arrayItemValueField s))),
                    (''percentage'', member item ''percentage_of_total''),
                    (''fiscalYears'',
                     Some (case member item ''fiscal_year_breakdown'' of
                             None \<Rightarrow> JObj []
                           | Some f \<Rightarrow> if truthy f then f else JObj []))])
               (case c of JArr items \<Rightarrow> items | _ \<Rightarrow> []))
      else
        Inr (map (\<lambda>entry.
                   [(''name'', Some (JStr (fst entry))),
                    (''value'',
                     case member (snd entry) ''total_obligations'' of
                       None \<Rightarrow> member (snd entry) ''total''
                     | Some x \<Rightarrow> Some x),
                    (''percentage'', member (snd entry) ''percentage_of_total''),
                    (''fiscalYears'',
                     Some (case member (snd entry) ''fiscal_years'' of
                             None \<Rightarrow> JObj []
                           | Some f \<Rightarrow> if truthy f then f else JObj []))])
               (entriesOf c)))"
proof -
  have item: "itemCategory s =
      (\<lambda>item. [(''name'', member item (propKey (arrayItemKeyField s))),
                (''value'', member item (propKey (arrayItemValueField s))),
                (''percentage'', member item ''percentage_of_total''),
                (''fiscalYears'',
                 Some (case member item ''fiscal_year_breakdown'' of
                         None \<Rightarrow> JObj []
                       | Some f \<Rightarrow> if truthy f then f else JObj []))])"
    by (rule ext) (simp add: itemCategory_def orElse_case)
  have entry: "entryCategory =
      (\<lambda>entry. [(''name'', Some (JStr (fst entry))),
                 (''value'',
                  case member (snd entry) ''total_obligations'' of
                    None \<Rightarrow> member (snd entry) ''total''
                  | Some x \<Rightarrow> Some x),
                 (''percentage'', member (snd entry) ''percentage_of_total''),
                 (''fiscalYears'',
                  Some (case member (snd entry) ''fiscal_years'' of
                          None \<Rightarrow> JObj []
                        | Some f \<Rightarrow> if truthy f then f else JObj []))])"
    by (rule ext) (simp add: entryCategory_def entryValue_def orElse_case)
  have fits: "containerFits s c \<longleftrightarrow>
      (if categoryValueType s = Some ''array''
         then (case c of JArr items \<Rightarrow> \<not> list_ex (\<lambda>item. item = JNull) items | _ \<Rightarrow> False)
       else \<not> list_ex (\<lambda>entry. snd entry = JNull) (entriesOf c))"
    by (cases c) (auto simp: containerFits_def list_all_iff list_ex_iff)
  show ?thesis
    unfolding getCategories_container [OF assms] fits item [symmetric] entry [symmetric]
    by (cases c) simp_all
qed

lemma tier_categories:
  "getCategories (Some tierValue) ''sumTier''
     = Inr [[(''name'', Some (JStr ''A'')), (''value'', Some (JNum 200)), (''percentage'', None),
             (''fiscalYears'', Some (JObj [(''2024'', JNum 200)]))],
            [(''name'', Some (JStr ''B'')), (''value'', Some (JNum 100)), (''percentage'', None),
             (''fiscalYears'', Some (JObj [(''2024'', JNum 100)]))]]"
  by (simp add: getCategories_def schema_lookup sumTierSchema_def tierValue_def
      getNestedValue_def reduceStep_def bindE_def mapEntry_def)

lemma null_entry_raises:
  "getCategories (Some nullEntryValue) ''smallBusiness'' = Inl TypeError"
  by (simp add: getCategories_def schema_lookup smallBusinessSchema_def nullEntryValue_def
      getNestedValue_def reduceStep_def bindE_def mapEntry_def)

lemma map_for_list_raises:
  "getCategories (Some mapForListValue) ''topPiid'' = Inl TypeError"
  by (simp add: getCategories_def schema_lookup topPiidSchema_def mapForListValue_def
      getNestedValue_def reduceStep_def bindE_def)

lemma both_totals:
  "getCategories (Some bothTotalsValue) ''smallBusiness''
     = Inr [[(''name'', Some (JStr ''SMALL BUSINESS'')), (''value'', Some (JNum 5)),
             (''percentage'', None), (''fiscalYears'', Some (JObj []))]]"
  by (simp add: getCategories_def schema_lookup smallBusinessSchema_def bothTotalsValue_def
      bothTotalsEntry_def getNestedValue_def reduceStep_def bindE_def mapEntry_def)

lemma total_only:
  "getCategories (Some totalOnlyValue) ''fasOem''
     = Inr [[(''name'', Some (JStr ''ACME'')), (''value'', Some (JNum 7)),
             (''percentage'', None), (''fiscalYears'', Some (JObj []))]]"
  by (simp add: getCategories_def schema_lookup fasOemSchema_def totalOnlyValue_def
      totalOnlyEntry_def getNestedValue_def reduceStep_def bindE_def mapEntry_def)

text \<open>
  C1, as stated, says that the extraction returns a list for every schema key and every
  parsed value. It raises a TypeError when an entry of the container is \<^verbatim>\<open>null\<close> (the callback
  reads \<^verbatim>\<open>data.total_obligations\<close>) and when the schema declares an array and the container
  is not one (\<^verbatim>\<open>categories.forEach\<close> is not a function).
\<close>

theorem getCategories_raises_counterexample:
  "getCategories (Some nullEntryValue) ''smallBusiness'' = Inl TypeError
   \<and> getCategories (Some mapForListValue) ''topPiid'' = Inl TypeError"
  by (simp add: null_entry_raises map_for_list_raises)

text \<open>
  C1, amended: for every schema key and every parsed value the extraction either raises a
  TypeError or returns a flat list whose elements all have the shape
  \<^verbatim>\<open>{name, value, percentage, fiscalYears}\<close>, whether the schema declares an object map or
  an array. The list is empty when the key is unknown, when the schema has no path for the
  categories and when the container is absent or falsy. Over a truthy container it returns
  exactly when no entry is \<^verbatim>\<open>null\<close> and, for a declared array, the container is an array;
  otherwise it raises a TypeError. When it returns, the list has one element per item or
  entry, in order. The element of an item of an array holds the item's members named by
  \<^verbatim>\<open>arrayItemKeyField\<close> and \<^verbatim>\<open>arrayItemValueField\<close>, its \<^verbatim>\<open>percentage_of_total\<close> and its
  \<^verbatim>\<open>fiscal_year_breakdown\<close>; the element of an entry of a map holds the entry's key, its
  \<^verbatim>\<open>total_obligations\<close> (its \<^verbatim>\<open>total\<close> when it has none), its \<^verbatim>\<open>percentage_of_total\<close> and its
  \<^verbatim>\<open>fiscal_years\<close>; the fiscal years are an empty mapping when the member is missing or falsy.
\<close>

theorem getCategories_flat_list:
  "(getCategories jsonData key = Inr cats \<longrightarrow> list_all categoryShape cats)
   \<and> (getCategories jsonData key = Inl e \<longrightarrow> e = TypeError)
   \<and> (map_of COLUMN_SCHEMAS key = None \<longrightarrow> getCategories jsonData key = Inr [])
   \<and> (map_of COLUMN_SCHEMAS key = Some s \<longrightarrow> categoriesPath s = None \<longrightarrow>
        getCategories jsonData key = Inr [])
   \<and> (map_of COLUMN_SCHEMAS key = Some s \<longrightarrow> categoriesPath s = Some p \<longrightarrow>
        \<not> truthyOpt (returned (getNestedValue jsonData p)) \<longrightarrow>
        getCategories jsonData key = Inr [])
   \<and> (map_of COLUMN_SCHEMAS key = Some s \<longrightarrow> categoriesPath s = Some p \<longrightarrow>
        getNestedValue jsonData p = Inr (Some c) \<longrightarrow> truthy c \<longrightarrow>
        ((\<exists>cs. getCategories jsonData key = Inr cs \<and> length cs = length (entriesOf c))
           \<longleftrightarrow> containerFits s c))
   \<and> (map_of COLUMN_SCHEMAS key = Some s \<longrightarrow> categoriesPath s = Some p \<longrightarrow>
        getNestedValue jsonData p = Inr (Some c) \<longrightarrow> truthy c \<longrightarrow>
        getCategories jsonData key =
          (if \<not> containerFits s c then Inl TypeError
           else if categoryValueType s = Some ''array'' then
             Inr (map (\<lambda>item.
                        [(''name'', member item (propKey (arrayItemKeyField s))),
                         (''value'', member item (propKey (arrayItemValueField s))),
                         (''percentage'', member item ''percentage_of_total''),
                         (''fiscalYears'',
                          Some (case member item ''fiscal_year_breakdown'' of
                                  None \<Rightarrow> JObj []
                                | Some f \<Rightarrow> if truthy f then f else JObj []))])
                    (case c of JArr items \<Rightarrow> items | _ \<Rightarrow> []))
           else
             Inr (map (\<lambda>entry.
                        [(''name'', Some (JStr (fst entry))),
                         (''value'',
                          case member (snd entry) ''total_obligations'' of
                            None \<Rightarrow> member (snd entry) ''total''
                          | Some x \<Rightarrow> Some x),
                         (''percentage'', member (snd entry) ''percentage_of_total''),
                         (''fiscalYears'',
                          Some (case member (snd entry) ''fiscal_years'' of
                                  None \<Rightarrow> JObj []
                                | Some f \<Rightarrow> if truthy f then f else JObj []))])
                    (entriesOf c))))"
  apply (intro conjI)
  subgoal using getCategories_shape [of jsonData key cats] by blast
  subgoal using getCategories_error [of jsonData key e] by blast
  subgoal by (simp add: getCategories_def)
  subgoal by (simp add: getCategories_def)
  subgoal using getCategories_empty [of key s p jsonData] by blast
  subgoal using getCategories_fits [of key s p jsonData c] by blast
  subgoal using getCategories_exact [of key s p jsonData c] by blast
  done

theorem getCategories_flat_list_witness:
  "map_of COLUMN_SCHEMAS ''sumTier'' = Some sumTierSchema
   \<and> categoriesPath sumTierSchema = Some ''tier_summaries''
   \<and> categoryValueType sumTierSchema \<noteq> Some ''array''
   \<and> (\<exists>c. getNestedValue (Some tierValue) ''tier_summaries'' = Inr (Some c) \<and> truthy c
          \<and> containerFits sumTierSchema c \<and> length (entriesOf c) = 2)
   \<and> getCategories (Some tierValue) ''sumTier''
       = Inr [[(''name'', Some (JStr ''A'')), (''value'', Some (JNum 200)), (''percentage'', None),
               (''fiscalYears'', Some (JObj [(''2024'', JNum 200)]))],
              [(''name'', Some (JStr ''B'')), (''value'', Some (JNum 100)), (''percentage'', None),
               (''fiscalYears'', Some (JObj [(''2024'', JNum 100)]))]]
   \<and> list_all categoryShape
        [[(''name'', Some (JStr ''A'')), (''value'', Some (JNum 200)), (''percentage'', None),
          (''fiscalYears'', Some (JObj [(''2024'', JNum 200)]))],
         [(''name'', Some (JStr ''B'')), (''value'', Some (JNum 100)), (''percentage'', None),
          (''fiscalYears'', Some (JObj [(''2024'', JNum 100)]))]]"
proof -
  let ?c = "JObj [(''A'', JObj [(''total'', JNum 200), (''fiscal_years'', JObj [(''2024'', JNum 200)])]),
                  (''B'', JObj [(''total'', JNum 100), (''fiscal_years'', JObj [(''2024'', JNum 100)])])]"
  let ?cats = "[[(''name'', Some (JStr ''A'')), (''value'', Some (JNum 200)), (''percentage'', None),
                 (''fiscalYears'', Some (JObj [(''2024'', JNum 200)]))],
                [(''name'', Some (JStr ''B'')), (''value'', Some (JNum 100)), (''percentage'', None),
                 (''fiscalYears'', Some (JObj [(''2024'', JNum 100)]))]]"
  have schema: "map_of COLUMN_SCHEMAS ''sumTier'' = Some sumTierSchema"
    by (simp add: schema_lookup)
  have path: "categoriesPath sumTierSchema = Some ''tier_summaries''"
    by (simp add: sumTierSchema_def)
  have kind: "categoryValueType sumTierSchema \<noteq> Some ''array''"
    by (simp add: sumTierSchema_def)
  have container: "getNestedValue (Some tierValue) ''tier_summaries'' = Inr (Some ?c)"
    by (simp add: tierValue_def getNestedValue_def reduceStep_def)
  have truthy: "truthy ?c"
    by simp
  have fits: "containerFits sumTierSchema ?c" "length (entriesOf ?c) = 2"
    by (simp_all add: containerFits_def sumTierSchema_def)
  note claim = getCategories_flat_list
      [where jsonData = "Some tierValue" and key = "''sumTier''" and s = sumTierSchema
         and p = "''tier_summaries''" and c = ?c and cats = ?cats]
  note exact = claim [THEN conjunct2, THEN conjunct2, THEN conjunct2, THEN conjunct2,
      THEN conjunct2, THEN conjunct2, THEN mp, THEN mp, THEN mp, THEN mp,
      OF schema path container truthy]
  from exact fits(1) kind
  have cats: "getCategories (Some tierValue) ''sumTier'' = Inr ?cats"
    by simp
  from claim [THEN conjunct1, THEN mp, OF cats]
  have shape: "list_all categoryShape ?cats" .
  from container truthy fits
  have "\<exists>c. getNestedValue (Some tierValue) ''tier_summaries'' = Inr (Some c) \<and> truthy c
          \<and> containerFits sumTierSchema c \<and> length (entriesOf c) = 2"
    by blast
  with schema path kind cats shape show ?thesis
    by blast
qed

text \<open>
  C5, as stated, takes the value of an entry from the field that the schema names in
  \<^verbatim>\<open>itemValueField\<close>, \<^verbatim>\<open>total\<close> by default. The code does not read \<^verbatim>\<open>itemValueField\<close>: for a
  small-business entry (no \<^verbatim>\<open>itemValueField\<close>) with both fields it takes \<^verbatim>\<open>total_obligations\<close>,
  and for an OEM entry (\<^verbatim>\<open>itemValueField\<close> is \<^verbatim>\<open>total_obligations\<close>) without that field it
  falls back to \<^verbatim>\<open>total\<close>.
\<close>

theorem getCategories_itemValueField_counterexample:
  "getCategories (Some bothTotalsValue) ''smallBusiness''
     = Inr [[(''name'', Some (JStr ''SMALL BUSINESS'')), (''value'', Some (JNum 5)),
             (''percentage'', None), (''fiscalYears'', Some (JObj []))]]
   \<and> itemValueField smallBusinessSchema = None
   \<and> specEntryValue smallBusinessSchema bothTotalsEntry = Some (JNum 7)
   \<and> getCategories (Some totalOnlyValue) ''fasOem''
     = Inr [[(''name'', Some (JStr ''ACME'')), (''value'', Some (JNum 7)),
             (''percentage'', None), (''fiscalYears'', Some (JObj []))]]
   \<and> itemValueField fasOemSchema = Some ''total_obligations''
   \<and> specEntryValue fasOemSchema totalOnlyEntry = None"
  by (simp add: both_totals total_only)
    (simp add: specEntryValue_def smallBusinessSchema_def fasOemSchema_def bothTotalsEntry_def
      totalOnlyEntry_def)

text \<open>
  C5, amended: for every schema declared an object map and every entry of the container at
  its path, the value that the extraction returns for the entry is the entry's
  \<^verbatim>\<open>total_obligations\<close> when the entry has that field and its \<^verbatim>\<open>total\<close> otherwise, whatever
  \<^verbatim>\<open>itemValueField\<close> the schema declares. This is the field named by \<^verbatim>\<open>itemValueField\<close>
  (\<^verbatim>\<open>total\<close> by default) when an entry of the column that declares \<^verbatim>\<open>total_obligations\<close> has
  that field, and when an entry of a column that declares none has no \<^verbatim>\<open>total_obligations\<close>.
\<close>

theorem getCategories_entry_value:
  assumes "map_of COLUMN_SCHEMAS key = Some s" and "categoryValueType s = Some ''object_map''"
    and "categoriesPath s = Some p" and "getNestedValue jsonData p = Inr (Some c)"
    and "truthy c" and "getCategories jsonData key = Inr cats" and "i < length (entriesOf c)"
  shows "length cats = length (entriesOf c)
     \<and> map_of (cats ! i) ''name'' = Some (Some (JStr (fst (entriesOf c ! i))))
     \<and> map_of (cats ! i) ''value''
         = Some (case member (snd (entriesOf c ! i)) ''total_obligations'' of
                   None \<Rightarrow> member (snd (entriesOf c ! i)) ''total''
                 | Some x \<Rightarrow> Some x)
     \<and> ((itemValueField s = None \<and> member (snd (entriesOf c ! i)) ''total_obligations'' = None)
          \<or> (itemValueField s = Some ''total_obligations''
              \<and> member (snd (entriesOf c ! i)) ''total_obligations'' \<noteq> None)
        \<longrightarrow> map_of (cats ! i) ''value'' = Some (specEntryValue s (snd (entriesOf c ! i))))"
proof -
  from assms(2) have "categoryValueType s \<noteq> Some ''array''" by simp
  with getCategories_container [OF assms(1,3,4,5)] assms(6)
  have cats: "cats = map entryCategory (entriesOf c)"
    by (simp split: if_splits)
  with assms(7) have "cats ! i = entryCategory (entriesOf c ! i)" by simp
  with cats show ?thesis
    by (auto simp: entryCategory_def entryValue_def specEntryValue_def split: option.splits)
qed

theorem getCategories_entry_value_witness:
  "map_of COLUMN_SCHEMAS ''sumTier'' = Some sumTierSchema
   \<and> categoryValueType sumTierSchema = Some ''object_map''
   \<and> categoriesPath sumTierSchema = Some ''tier_summaries''
   \<and> itemValueField sumTierSchema = None
   \<and> (\<exists>c cs. getNestedValue (Some tierValue) ''tier_summaries'' = Inr (Some c) \<and> truthy c
          \<and> getCategories (Some tierValue) ''sumTier'' = Inr cs \<and> 0 < length (entriesOf c)
          \<and> member (snd (entriesOf c ! 0)) ''total_obligations'' = None
          \<and> map_of (cs ! 0) ''value'' = Some (Some (JNum 200))
          \<and> specEntryValue sumTierSchema (snd (entriesOf c ! 0)) = Some (JNum 200))"
proof -
  let ?c = "JObj [(''A'', JObj [(''total'', JNum 200), (''fiscal_years'', JObj [(''2024'', JNum 200)])]),
                  (''B'', JObj [(''total'', JNum 100), (''fiscal_years'', JObj [(''2024'', JNum 100)])])]"
  have schema: "map_of COLUMN_SCHEMAS ''sumTier'' = Some sumTierSchema"
    by (simp add: schema_lookup)
  have kind: "categoryValueType sumTierSchema = Some ''object_map''"
    "categoriesPath sumTierSchema = Some ''tier_summaries''" "itemValueField sumTierSchema = None"
    by (simp_all add: sumTierSchema_def)
  have container: "getNestedValue (Some tierValue) ''tier_summaries'' = Inr (Some ?c)"
    by (simp add: tierValue_def getNestedValue_def reduceStep_def)
  have entry: "truthy ?c" "0 < length (entriesOf ?c)"
    "member (snd (entriesOf ?c ! 0)) ''total_obligations'' = None"
    "member (snd (entriesOf ?c ! 0)) ''total'' = Some (JNum 200)"
    by simp_all
  from getCategories_entry_value
         [OF schema kind(1) kind(2) container entry(1) tier_categories entry(2)] kind(3) entry
  have "map_of ([[(''name'', Some (JStr ''A'')), (''value'', Some (JNum 200)), (''percentage'', None),
             (''fiscalYears'', Some (JObj [(''2024'', JNum 200)]))],
            [(''name'', Some (JStr ''B'')), (''value'', Some (JNum 100)), (''percentage'', None),
             (''fiscalYears'', Some (JObj [(''2024'', JNum 100)]))]] ! 0) ''value''
          = Some (Some (JNum 200))
        \<and> specEntryValue sumTierSchema (snd (entriesOf ?c ! 0)) = Some (JNum 200)"
    by (simp add: specEntryValue_def)
  with schema kind container entry tier_categories show ?thesis
    by (intro conjI exI [of _ ?c]) auto
qed

section \<open>Properties of the aggregation of fiscal years\<close>

lemma map_of_assign: "map_of (assign k v acc) = (map_of acc)(k \<mapsto> v)"
  by (induction acc) (auto simp: fun_eq_iff)

lemma assign_order:
  "assign ''2023'' (JNum 1) (assign ''FY'' (JNum 2) (assign ''2024'' (JNum 3) []))
     = [(''2023'', JNum 1), (''2024'', JNum 3), (''FY'', JNum 2)]"
  by (simp add: enumeratedBefore_def arrayIndex_def digitOf_def showNat.simps digitChar_def)

lemma assign_nonempty: "assign k v acc \<noteq> []"
  by (cases acc) (auto split: if_splits)

lemma numeric_assign: "numeric acc \<Longrightarrow> isNumber v \<Longrightarrow> numeric (assign k v acc)"
  by (induction acc) (auto simp: numeric_def)

lemma numeric_lookup: "numeric acc \<Longrightarrow> map_of acc y = Some v \<Longrightarrow> isNumber v"
  by (induction acc) (auto simp: numeric_def split: if_splits)

lemma addYear_number:
  assumes "numeric acc"
  shows "addYear rt acc (y, JNum n) = Inr (assign y (JNum (amount acc y + n)) acc)"
proof (cases "map_of acc y")
  case None
  then show ?thesis by (simp add: addYear_def jsAdd_def bindE_def amount_def)
next
  case (Some v)
  with assms numeric_lookup obtain a where "v = JNum a" by (cases v) fastforce+
  with Some show ?thesis by (simp add: addYear_def jsAdd_def bindE_def amount_def)
qed

lemma reduceE_addYear:
  assumes "numeric acc" and "numeric ps"
  shows "\<exists>r. reduceE (addYear rt) acc ps = Inr r \<and> numeric r
     \<and> (ps \<noteq> [] \<longrightarrow> r \<noteq> []) \<and> (ps = [] \<longrightarrow> r = acc)
     \<and> (\<forall>y. map_of r y =
            (if y \<in> dom (map_of acc) \<union> fst ` set ps
               then Some (JNum (amount acc y + yearSum ps y)) else None))"
  using assms
proof (induction ps arbitrary: acc)
  case Nil
  have "map_of acc y =
          (if y \<in> dom (map_of acc) \<union> fst ` set []
             then Some (JNum (amount acc y + yearSum [] y)) else None)" for y
  proof (cases "map_of acc y")
    case None
    then show ?thesis by (simp add: domIff)
  next
    case (Some v)
    with Nil numeric_lookup obtain a where "v = JNum a" by (cases v) fastforce+
    with Some show ?thesis by (auto simp: amount_def yearSum_def)
  qed
  then have look: "\<forall>y. map_of acc y =
          (if y \<in> dom (map_of acc) \<union> fst ` set []
             then Some (JNum (amount acc y + yearSum [] y)) else None)"
    by blast
  have run: "reduceE (addYear rt) acc [] = Inr acc" by simp
  from run Nil(1) look show ?case by blast
next
  case (Cons p ps)
  obtain k v where p: "p = (k, v)" by (cases p)
  with Cons.prems obtain n where v: "v = JNum n" by (cases v) (simp_all add: numeric_def)
  let ?acc = "assign k (JNum (amount acc k + n)) acc"
  from Cons.prems p v have step: "addYear rt acc p = Inr ?acc"
    by (simp add: addYear_number)
  from Cons.prems have acc': "numeric ?acc"
    by (simp add: numeric_assign)
  from Cons.prems have ps: "numeric ps"
    by (simp add: numeric_def)
  from Cons.IH [OF acc' ps] obtain r where r: "reduceE (addYear rt) ?acc ps = Inr r"
    and num: "numeric r" and keep: "ps = [] \<longrightarrow> r = ?acc" and more: "ps \<noteq> [] \<longrightarrow> r \<noteq> []"
    and look: "\<And>y. map_of r y =
            (if y \<in> dom (map_of ?acc) \<union> fst ` set ps
               then Some (JNum (amount ?acc y + yearSum ps y)) else None)"
    by blast
  from r step have run: "reduceE (addYear rt) acc (p # ps) = Inr r" by simp
  from keep more have nonempty: "r \<noteq> []"
    using assign_nonempty [of k "JNum (amount acc k + n)" acc] by (cases "ps = []") simp_all
  have "amount ?acc y + yearSum ps y = amount acc y + yearSum (p # ps) y" for y
    using p v by (simp add: amount_def map_of_assign yearSum_def)
  moreover have "dom (map_of ?acc) \<union> fst ` set ps = dom (map_of acc) \<union> fst ` set (p # ps)"
    using p by (auto simp: map_of_assign)
  ultimately have "map_of r y =
            (if y \<in> dom (map_of acc) \<union> fst ` set (p # ps)
               then Some (JNum (amount acc y + yearSum (p # ps) y)) else None)" for y
    using look [of y] by simp
  with run num nonempty show ?case by simp
qed

lemma getProp_defined: "d \<noteq> JNull \<Longrightarrow> getProp (Some d) k = Inr (member d k)"
  by (cases d) simp_all

lemma yearMapping_numeric: "yearMapping f \<Longrightarrow> truthy f \<Longrightarrow> numeric (entriesOf f)"
  by (cases f) (auto simp: numeric_def list_all_iff)

lemma addCategory_summable:
  assumes "summableEntry d"
  shows "addCategory rt acc d = reduceE (addYear rt) acc (contributions d)"
    and "numeric (contributions d)"
  using assms yearMapping_numeric
  by (auto simp: addCategory_def summableEntry_def contributions_def getProp_defined bindE_def
      numeric_def split: option.splits)

lemma numeric_append: "numeric (ps @ qs) \<longleftrightarrow> numeric ps \<and> numeric qs"
  by (simp add: numeric_def)

lemma reduceE_append:
  "reduceE f acc (xs @ ys) = (case reduceE f acc xs of Inl e \<Rightarrow> Inl e | Inr r \<Rightarrow> reduceE f r ys)"
  by (induction xs arbitrary: acc) (auto split: sum.splits)

lemma reduceE_addCategory:
  assumes "list_all summableEntry ds" and "numeric acc"
  shows "reduceE (addCategory rt) acc ds = reduceE (addYear rt) acc (concat (map contributions ds))
       \<and> numeric (concat (map contributions ds))"
  using assms
proof (induction ds arbitrary: acc)
  case Nil
  show ?case by (simp add: numeric_def)
next
  case (Cons d ds)
  from Cons.prems have d: "summableEntry d" and ds: "list_all summableEntry ds" by simp_all
  note step = addCategory_summable(1) [OF d, of rt acc] addCategory_summable(2) [OF d]
  from reduceE_addYear [OF Cons.prems(2) step(2), of rt] obtain r
    where r: "reduceE (addYear rt) acc (contributions d) = Inr r" and num: "numeric r"
    by blast
  from Cons.IH [OF ds num] step r show ?case
    by (simp add: reduceE_append numeric_append)
qed

lemma getFiscalYearData_object_map:
  assumes "map_of COLUMN_SCHEMAS key = Some s" and "timeSeriesPath s = None"
    and "categoriesPath s = Some p" and "getNestedValue jsonData p = Inr (Some (JObj entries))"
    and "list_all (\<lambda>entry. summableEntry (snd entry)) entries"
  shows "\<exists>totals. reduceE (addYear rt) [] (allContributions entries) = Inr totals
           \<and> getFiscalYearData rt jsonData key =
               Inr (if allContributions entries = [] then None else Some (JObj totals))
           \<and> (\<forall>y. map_of totals y =
                  (if y \<in> fst ` set (allContributions entries)
                     then Some (JNum (yearSum (allContributions entries) y)) else None))"
proof -
  from assms(3,4) have p: "p \<noteq> []"
    by (auto simp: getNestedValue_def)
  from assms(5) have ds: "list_all summableEntry (map snd entries)"
    by (simp add: list_all_iff)
  have all: "concat (map contributions (map snd entries)) = allContributions entries"
    by (simp add: allContributions_def comp_def)
  have start: "numeric []" by (simp add: numeric_def)
  from reduceE_addCategory [OF ds start, of rt] all
  have fold: "reduceE (addCategory rt) [] (map snd entries)
                = reduceE (addYear rt) [] (allContributions entries)"
    and num: "numeric (allContributions entries)"
    by simp_all
  from reduceE_addYear [OF start num, of rt] obtain totals
    where totals: "reduceE (addYear rt) [] (allContributions entries) = Inr totals"
      and more: "allContributions entries \<noteq> [] \<longrightarrow> totals \<noteq> []"
      and keep: "allContributions entries = [] \<longrightarrow> totals = []"
      and look: "\<And>y. map_of totals y =
            (if y \<in> dom (map_of ([] :: (string \<times> json) list))
                       \<union> fst ` set (allContributions entries)
               then Some (JNum (amount [] y + yearSum (allContributions entries) y)) else None)"
    by blast
  from assms(1-4) p fold totals more keep
  have "getFiscalYearData rt jsonData key =
               Inr (if allContributions entries = [] then None else Some (JObj totals))"
    by (simp add: getFiscalYearData_def bindE_def)
  moreover from look have "map_of totals y =
          (if y \<in> fst ` set (allContributions entries)
             then Some (JNum (yearSum (allContributions entries) y)) else None)" for y
    by (simp add: amount_def)
  ultimately show ?thesis using totals by blast
qed

lemma getFiscalYearData_time_series:
  "map_of COLUMN_SCHEMAS k = Some s \<Longrightarrow> timeSeriesPath s = Some q \<Longrightarrow> q \<noteq> [] \<Longrightarrow>
   getFiscalYearData rt jd k = getNestedValue jd q"
  by (simp add: getFiscalYearData_def)

lemma null_entry_aggregate:
  "getFiscalYearData sampleRuntime (Some nullEntryValue) ''smallBusiness'' = Inl TypeError"
  by (simp add: getFiscalYearData_def schema_lookup smallBusinessSchema_def nullEntryValue_def
      getNestedValue_def reduceStep_def bindE_def addCategory_def)

text \<open>
  C7, as stated, describes the result for every schema without a time series whose path
  for the categories resolves to an object map. The small-business schema is one, and the
  container of \<open>nullEntryValue\<close> is an object map; its one entry is \<^verbatim>\<open>null\<close>, and the
  aggregation raises a TypeError on reading \<^verbatim>\<open>categoryData.fiscal_years\<close>.
\<close>

theorem getFiscalYearData_null_entry_counterexample:
  "map_of COLUMN_SCHEMAS ''smallBusiness'' = Some smallBusinessSchema
   \<and> timeSeriesPath smallBusinessSchema = None
   \<and> categoriesPath smallBusinessSchema = Some ''business_size_summaries''
   \<and> getNestedValue (Some nullEntryValue) ''business_size_summaries''
       = Inr (Some (JObj [(''SMALL BUSINESS'', JNull)]))
   \<and> getFiscalYearData sampleRuntime (Some nullEntryValue) ''smallBusiness'' = Inl TypeError"
  by (simp add: null_entry_aggregate schema_lookup)
    (simp add: smallBusinessSchema_def nullEntryValue_def getNestedValue_def reduceStep_def)

text \<open>
  C7, amended: for every schema that has no \<^verbatim>\<open>timeSeriesPath\<close> but has a \<^verbatim>\<open>categoriesPath\<close>
  resolving to an object map, provided that no category entry is \<^verbatim>\<open>null\<close> and that every
  \<^verbatim>\<open>fiscal_years\<close> of an entry is falsy or a mapping of years (none the name of an
  inherited member) to numbers, the result is absent when no entry contributes a year, and
  otherwise a mapping whose value at each contributed year is the sum of the amounts that
  the entries hold for that year, and which holds no other year. For every schema that
  has a \<^verbatim>\<open>timeSeriesPath\<close>, the result is exactly the value resolved at that path.
\<close>

theorem getFiscalYearData_aggregate:
  assumes "map_of COLUMN_SCHEMAS key = Some s" and "timeSeriesPath s = None"
    and "categoriesPath s = Some p" and "getNestedValue jsonData p = Inr (Some (JObj entries))"
    and "list_all (\<lambda>entry. summableEntry (snd entry)) entries"
  shows "(allContributions entries = [] \<longrightarrow> getFiscalYearData rt jsonData key = Inr None)
     \<and> (allContributions entries \<noteq> [] \<longrightarrow>
          (\<exists>totals. getFiscalYearData rt jsonData key = Inr (Some (JObj totals))
             \<and> (\<forall>y. map_of totals y =
                    (if y \<in> fst ` set (allContributions entries)
                       then Some (JNum (yearSum (allContributions entries) y)) else None))))
     \<and> (\<forall>jd k s' q. map_of COLUMN_SCHEMAS k = Some s' \<longrightarrow> timeSeriesPath s' = Some q \<longrightarrow>
            q \<noteq> [] \<longrightarrow> getFiscalYearData rt jd k = getNestedValue jd q)"
proof -
  from getFiscalYearData_object_map [OF assms, of rt] obtain totals where
    "getFiscalYearData rt jsonData key =
       Inr (if allContributions entries = [] then None else Some (JObj totals))"
    "\<forall>y. map_of totals y =
          (if y \<in> fst ` set (allContributions entries)
             then Some (JNum (yearSum (allContributions entries) y)) else None)"
    by blast
  with getFiscalYearData_time_series show ?thesis
    by auto
qed

theorem getFiscalYearData_aggregate_witness:
  "map_of COLUMN_SCHEMAS ''sumTier'' = Some sumTierSchema
   \<and> timeSeriesPath sumTierSchema = None
   \<and> categoriesPath sumTierSchema = Some ''tier_summaries''
   \<and> (\<exists>entries. getNestedValue (Some tierValue) ''tier_summaries'' = Inr (Some (JObj entries))
          \<and> list_all (\<lambda>entry. summableEntry (snd entry)) entries
          \<and> allContributions entries = [(''2024'', JNum 200), (''2024'', JNum 100)])
   \<and> (\<exists>totals. getFiscalYearData sampleRuntime (Some tierValue) ''sumTier'' = Inr (Some (JObj totals))
          \<and> map_of totals ''2024'' = Some (JNum 300) \<and> map_of totals ''2023'' = None)"
proof -
  let ?entries = "[(''A'', JObj [(''total'', JNum 200), (''fiscal_years'', JObj [(''2024'', JNum 200)])]),
                   (''B'', JObj [(''total'', JNum 100), (''fiscal_years'', JObj [(''2024'', JNum 100)])])]"
  have schema: "map_of COLUMN_SCHEMAS ''sumTier'' = Some sumTierSchema"
    by (simp add: schema_lookup)
  have paths: "timeSeriesPath sumTierSchema = None"
    "categoriesPath sumTierSchema = Some ''tier_summaries''"
    by (simp_all add: sumTierSchema_def)
  have container: "getNestedValue (Some tierValue) ''tier_summaries'' = Inr (Some (JObj ?entries))"
    by (simp add: tierValue_def getNestedValue_def reduceStep_def)
  have summable: "list_all (\<lambda>entry. summableEntry (snd entry)) ?entries"
    by (simp add: summableEntry_def inheritedNames_def)
  have contributed: "allContributions ?entries = [(''2024'', JNum 200), (''2024'', JNum 100)]"
    by (simp add: allContributions_def contributions_def)
  have sums: "yearSum [(''2024'', JNum 200), (''2024'', JNum 100)] ''2024'' = 300"
    by (simp add: yearSum_def)
  from getFiscalYearData_aggregate [OF schema paths container summable, of sampleRuntime]
  obtain totals where totals:
    "getFiscalYearData sampleRuntime (Some tierValue) ''sumTier'' = Inr (Some (JObj totals))"
    "\<And>y. map_of totals y =
          (if y \<in> fst ` set (allContributions ?entries)
             then Some (JNum (yearSum (allContributions ?entries) y)) else None)"
    unfolding contributed by auto
  from totals(2) [of "''2024''"] totals(2) [of "''2023''"] contributed sums
  have "map_of totals ''2024'' = Some (JNum 300)" "map_of totals ''2023'' = None"
    by simp_all
  with totals(1) schema paths container summable contributed show ?thesis
    by blast
qed

end
